(* ===== verification/Prelude.thy ===== *)
theory Prelude
  imports Complex_Main "HOL-Library.Word"
begin

text \<open>
  Shared vocabulary of the development: the Python exceptions the program can raise,
  Python's semantics for the built-ins \<open>main.py\<close> relies on (negative list indexing,
  \<open>int()\<close> of a float, \<open>%\<close>, \<open>max(..., key=...)\<close>), the named theorem collection
  that carries the component proofs, and the generic lemmas about these helpers.
  Floats of the source are modelled as exact rationals (\<open>rat\<close>); where that matters
  the theory saying so points it out.
\<close>

named_theorems py_simps "evaluation rules for the Python built-ins of the model"

subsection \<open>Exceptions\<close>

text \<open>
  Every exception \<open>main.py\<close> can raise through the code paths modelled here.
  \<open>CvSizeMismatch\<close> is the \<open>cv2.error\<close> that \<open>cv2.addWeighted\<close> raises when its two
  arrays differ in shape; \<open>FailSafeException\<close> is the exception \<open>pyautogui.moveTo\<close>
  raises while the pointer is at the fail-safe corner.
\<close>

datatype py_error = IndexError | ValueError | ZeroDivisionError | CvSizeMismatch | FailSafeException

subsection \<open>Python built-ins\<close>

text \<open>\<open>xs[i]\<close>: negative indices count from the end; out of range raises.\<close>

definition py_index :: "'a list \<Rightarrow> int \<Rightarrow> py_error + 'a" where
  "py_index xs i =
     (let k = (if 0 \<le> i then i else i + int (length xs))
      in if k < 0 \<or> int (length xs) \<le> k then Inl IndexError else Inr (xs ! nat k))"

text \<open>\<open>int(x)\<close> of a float truncates towards zero.\<close>

definition py_int :: "rat \<Rightarrow> int" where
  "py_int x = (if 0 \<le> x then \<lfloor>x\<rfloor> else \<lceil>x\<rceil>)"

text \<open>\<open>a % b\<close> on ints: the sign of the divisor (HOL's \<open>mod\<close> on \<open>int\<close>), zero raises.\<close>

definition py_mod :: "int \<Rightarrow> int \<Rightarrow> py_error + int" where
  "py_mod a b = (if b = 0 then Inl ZeroDivisionError else Inr (a mod b))"

text \<open>
  \<open>max(xs, key=f)\<close> as CPython's \<open>min_max\<close> computes it: the first element is the
  candidate, and a later element replaces it only when its key is strictly greater;
  an empty sequence raises \<open>ValueError\<close>.
\<close>

fun py_max_key :: "('a \<Rightarrow> 'k::linorder) \<Rightarrow> 'a list \<Rightarrow> py_error + 'a" where
  "py_max_key f [] = Inl ValueError"
| "py_max_key f (x # xs) = Inr (foldl (\<lambda>m y. if f m < f y then y else m) x xs)"

subsection \<open>Lemmas on the built-ins\<close>

lemma py_index_neg [py_simps]:
  assumes "0 < k" "k \<le> int (length xs)"
  shows "py_index xs (- k) = Inr (xs ! (length xs - nat k))"
proof -
  have "nat (int (length xs) - k) = length xs - nat k" using assms by linarith
  with assms show ?thesis by (simp add: py_index_def)
qed

lemma py_index_neg_out [py_simps]:
  "int (length xs) < k \<Longrightarrow> py_index xs (- k) = Inl IndexError"
  by (simp add: py_index_def)

lemma py_int_nonneg [py_simps]: "0 \<le> x \<Longrightarrow> py_int x = \<lfloor>x\<rfloor>"
  by (simp add: py_int_def)

lemma py_int_of_int [simp]: "py_int (of_int i) = i"
  by (simp add: py_int_def)

lemma py_mod_pos [py_simps]: "0 < b \<Longrightarrow> py_mod a b = Inr (a mod b)"
  by (simp add: py_mod_def)

lemma py_mod_range: "0 < b \<Longrightarrow> py_mod a b = Inr r \<Longrightarrow> 0 \<le> r \<and> r < b"
  by (auto simp: py_mod_def)

text \<open>Element-wise maps over two nested lists of the same shape that keep one side.\<close>

lemma map2_map2_left:
  "map length a = map length b \<Longrightarrow> map2 (map2 (\<lambda>p q. p)) a b = a"
proof (induction a arbitrary: b)
  case (Cons r a)
  then show ?case by (cases b) (auto simp: map_fst_zip [unfolded fst_def])
qed simp

lemma map2_map2_right:
  "map length a = map length b \<Longrightarrow> map2 (map2 (\<lambda>p q. q)) a b = b"
proof (induction a arbitrary: b)
  case (Cons r a)
  then show ?case by (cases b) (auto simp: map_snd_zip [unfolded snd_def])
qed simp

lemma map2_map2_shape:
  "map length a = map length b \<Longrightarrow> map length (map2 (map2 f) a b) = map length a"
proof (induction a arbitrary: b)
  case (Cons r a)
  then show ?case by (cases b) auto
qed simp

lemma map2_map2_map_map:
  "map2 (map2 g) xs (map (map h) xs) = map (map (\<lambda>p. g p (h p))) xs"
proof (induction xs)
  case (Cons r xs)
  have "map2 g r (map h r) = map (\<lambda>p. g p (h p)) r" by (induction r) auto
  with Cons show ?case by simp
qed simp

text \<open>A convex combination lies between its two points.\<close>

lemma convex_between:
  fixes a b alpha :: rat
  assumes "0 \<le> alpha" "alpha \<le> 1"
  shows "min a b \<le> a * (1 - alpha) + b * alpha \<and> a * (1 - alpha) + b * alpha \<le> max a b"
proof -
  have "min a b * (1 - alpha) \<le> a * (1 - alpha)" "min a b * alpha \<le> b * alpha"
    "a * (1 - alpha) \<le> max a b * (1 - alpha)" "b * alpha \<le> max a b * alpha"
    using assms by (auto intro: mult_right_mono)
  then show ?thesis by (simp add: algebra_simps)
qed

text \<open>An 8-bit sample read as a number is at most 255.\<close>

lemma unat_u8_le [simp]: "unat (v :: 8 word) \<le> 255"
proof -
  have "unat v < 2 ^ LENGTH(8)" by (rule unsigned_less)
  then show ?thesis by simp
qed

text \<open>The fold behind \<open>max(..., key=f)\<close>: its result is the start or a list element.\<close>

lemma foldl_max_key_mem:
  "foldl (\<lambda>m y. if f m < f y then y else m) x xs \<in> insert x (set xs)"
  by (induction xs arbitrary: x) (auto dest: subsetD [rotated])

lemma foldl_max_key_ge:
  fixes f :: "'a \<Rightarrow> 'k::linorder"
  shows "z \<in> insert x (set xs) \<Longrightarrow> f z \<le> f (foldl (\<lambda>m y. if f m < f y then y else m) x xs)"
proof (induction xs arbitrary: x z)
  case Nil
  then show ?case by simp
next
  case (Cons y ys)
  let ?g = "\<lambda>m y. if f m < f y then y else m"
  let ?m = "?g x y"
  have m: "f x \<le> f ?m" "f y \<le> f ?m" by auto
  have top: "f ?m \<le> f (foldl ?g ?m ys)" using Cons.IH [where x = ?m and z = ?m] by simp
  from Cons.prems have "z = x \<or> z = y \<or> z \<in> set ys" by auto
  then have "f z \<le> f (foldl ?g ?m ys)"
  proof (elim disjE)
    assume "z \<in> set ys"
    then show ?thesis using Cons.IH [where x = ?m and z = z] by simp
  qed (use m top in \<open>auto intro: order_trans\<close>)
  then show ?case by simp
qed

text \<open>
  Ties keep the earlier element: whatever precedes the result in the list has a
  strictly smaller key.
\<close>

lemma foldl_max_key_first:
  fixes f :: "'a \<Rightarrow> 'k::linorder"
  shows "foldl (\<lambda>m y. if f m < f y then y else m) x xs = r \<Longrightarrow>
   r \<noteq> x \<Longrightarrow> \<exists>i < length xs. xs ! i = r \<and> f x < f r \<and> (\<forall>j < i. f (xs ! j) < f r)"
proof (induction xs arbitrary: x)
  case Nil
  then show ?case by simp
next
  case (Cons y ys)
  show ?case
  proof (cases "f x < f y")
    case True
    show ?thesis
    proof (cases "r = y")
      case True
      with \<open>f x < f y\<close> show ?thesis by auto
    next
      case False
      with True Cons.prems Cons.IH [of y] obtain i where
        "i < length ys" "ys ! i = r" "f y < f r" "\<forall>j < i. f (ys ! j) < f r" by auto
      with True show ?thesis
        by (intro exI [of _ "Suc i"]) (auto simp: less_Suc_eq_0_disj)
    qed
  next
    case False
    with Cons.prems Cons.IH [of x] obtain i where
      "i < length ys" "ys ! i = r" "f x < f r" "\<forall>j < i. f (ys ! j) < f r" by auto
    with False show ?thesis
      by (intro exI [of _ "Suc i"]) (auto simp: less_Suc_eq_0_disj not_less)
  qed
qed

text \<open>
  \<open>max(xs, key=f)\<close> returns the first element of largest key: every key is at most
  the result's, and every element before it has a strictly smaller key.
\<close>

lemma py_max_key_Inr:
  fixes f :: "'a \<Rightarrow> 'k::linorder"
  assumes "py_max_key f xs = Inr r"
  shows "\<exists>i < length xs. xs ! i = r \<and> (\<forall>j < length xs. f (xs ! j) \<le> f r) \<and>
           (\<forall>j < i. f (xs ! j) < f r)"
proof (cases xs)
  case Nil
  with assms show ?thesis by simp
next
  case (Cons x ys)
  let ?g = "\<lambda>m y. if f m < f y then y else m"
  from assms Cons have r: "foldl ?g x ys = r" by simp
  have all: "\<forall>j < length xs. f (xs ! j) \<le> f r"
  proof (intro allI impI)
    fix j assume "j < length xs"
    then have "xs ! j \<in> insert x (set ys)" using Cons by (auto simp: nth_Cons' split: if_splits)
    then show "f (xs ! j) \<le> f r" using foldl_max_key_ge [of "xs ! j" x ys f] r by simp
  qed
  show ?thesis
  proof (cases "r = x")
    case True
    then show ?thesis using Cons all by (intro exI [of _ 0]) simp
  next
    case False
    with r obtain i where i: "i < length ys" "ys ! i = r" "f x < f r" "\<forall>j < i. f (ys ! j) < f r"
      using foldl_max_key_first [of f x ys r] by blast
    have "\<forall>j < Suc i. f (xs ! j) < f r"
    proof (intro allI impI)
      fix j assume "j < Suc i"
      then show "f (xs ! j) < f r" using i Cons by (cases j) auto
    qed
    with i Cons all show ?thesis by (intro exI [of _ "Suc i"]) simp
  qed
qed

end
