(* ===== verification/Frame.thy ===== *)
theory Frame
  imports Prelude
begin

unbundle bit_operations_syntax

text \<open>
  The frame data model and the FrameInverter (\<open>src/main.py\<close>, line 6:
  \<open>inverted = 255 - frame\<close>). A frame is the \<open>numpy\<close> array OpenCV's \<open>cap.read()\<close>
  returns: rows of BGR pixels, each channel an unsigned 8-bit sample (\<open>8 word\<close>). Its
  shape is the list of its row lengths, so that two frames have equal \<open>numpy\<close> shape
  exactly when their shapes agree here.
\<close>

type_synonym sample = "8 word"

datatype pixel = BGR (px_b: sample) (px_g: sample) (px_r: sample)

type_synonym frame = "pixel list list"

definition frame_shape :: "frame \<Rightarrow> nat list" where
  "frame_shape fr = map length fr"

text \<open>A well-formed \<open>h \<times> w\<close> frame: what a capture device produces.\<close>

definition is_frame :: "nat \<Rightarrow> nat \<Rightarrow> frame \<Rightarrow> bool" where
  "is_frame h w fr \<longleftrightarrow> length fr = h \<and> list_all (\<lambda>row. length row = w) fr"

subsection \<open>FrameInverter\<close>

text \<open>
  \<open>255 - frame\<close> on a \<open>uint8\<close> array: \<open>numpy\<close> subtracts each sample in 8-bit
  arithmetic (the scalar 255 fits \<open>uint8\<close>, so the result stays \<open>uint8\<close>).
\<close>

definition invert_sample :: "sample \<Rightarrow> sample" where
  "invert_sample v = 255 - v"

primrec invert_pixel :: "pixel \<Rightarrow> pixel" where
  "invert_pixel (BGR b g r) = BGR (invert_sample b) (invert_sample g) (invert_sample r)"

definition invert_frame :: "frame \<Rightarrow> frame" where
  "invert_frame fr = map (map invert_pixel) fr"

text \<open>
  A frame given by a pixel function on the \<open>h \<times> w\<close> grid (\<open>x\<close> the column, \<open>y\<close> the
  row): the synthetic inputs of the end-to-end properties are built this way.
\<close>

definition grid_frame :: "nat \<Rightarrow> nat \<Rightarrow> (int \<times> int \<Rightarrow> pixel) \<Rightarrow> frame" where
  "grid_frame h w P = map (\<lambda>y. map (\<lambda>x. P (int x, int y)) [0..<w]) [0..<h]"

subsection \<open>Lemmas\<close>

lemma frame_shape_eq_is_frame:
  "is_frame h w a \<Longrightarrow> is_frame h w b \<Longrightarrow> frame_shape a = frame_shape b"
  by (auto simp: is_frame_def frame_shape_def list_all_iff intro: nth_equalityI)

lemma invert_sample_involutive [simp]: "invert_sample (invert_sample v) = v"
  by (simp add: invert_sample_def)

lemma invert_pixel_involutive [simp]: "invert_pixel (invert_pixel p) = p"
  by (cases p) simp

lemma frame_shape_invert [simp]: "frame_shape (invert_frame fr) = frame_shape fr"
  by (simp add: frame_shape_def invert_frame_def)

lemma is_frame_invert [simp]: "is_frame h w (invert_frame fr) = is_frame h w fr"
  by (simp add: is_frame_def invert_frame_def list_all_iff)

lemma invert_frame_append [simp]:
  "invert_frame (a @ b) = invert_frame a @ invert_frame b"
  by (simp add: invert_frame_def)

lemma is_frame_grid [simp]: "is_frame h w (grid_frame h w P)"
  by (simp add: is_frame_def grid_frame_def list_all_iff)

lemma invert_grid: "invert_frame (grid_frame h w P) = grid_frame h w (\<lambda>z. invert_pixel (P z))"
  by (simp add: invert_frame_def grid_frame_def)

lemma map2_grid:
  "map2 (map2 g) (grid_frame h w P) (grid_frame h w Q) = grid_frame h w (\<lambda>z. g (P z) (Q z))"
proof -
  have row: "map2 g (map (\<lambda>x. P (int x, int y)) xs) (map (\<lambda>x. Q (int x, int y)) xs) =
             map (\<lambda>x. g (P (int x, int y)) (Q (int x, int y))) xs" for xs :: "nat list" and y :: nat
    by (induction xs) auto
  have "map2 (map2 g) (map (\<lambda>y. map (\<lambda>x. P (int x, int y)) [0..<w]) ys)
                      (map (\<lambda>y. map (\<lambda>x. Q (int x, int y)) [0..<w]) ys) =
        map (\<lambda>y. map (\<lambda>x. g (P (int x, int y)) (Q (int x, int y))) [0..<w]) ys" for ys :: "nat list"
    by (induction ys) (simp_all add: row)
  then show ?thesis by (simp add: grid_frame_def)
qed

text \<open>The subtraction never wraps: \<open>255 - v\<close> read as a number is \<open>255 - unat v\<close>.\<close>

lemma unat_invert_sample: "unat (invert_sample v) = 255 - unat v"
proof -
  have "v \<le> 255" by (simp add: word_le_nat_alt)
  then show ?thesis by (simp add: invert_sample_def unat_sub)
qed

subsection \<open>Properties of the FrameInverter\<close>

text \<open>
  C9. The 8-bit subtraction \<open>255 - v\<close> of line 6 never wraps around: read as a
  number, every inverted sample is \<open>255\<close> minus the original, and it equals the
  bitwise complement of the sample.
\<close>

theorem invert_sample_no_wrap:
  "unat (invert_sample v) = 255 - unat v \<and> invert_sample v = NOT v"
proof
  show "unat (invert_sample v) = 255 - unat v" by (rule unat_invert_sample)
  show "invert_sample v = NOT v"
  proof -
    have "(255 :: sample) = - 1" by simp
    then show ?thesis by (simp add: invert_sample_def not_eq_complement)
  qed
qed

end
