(* ===== verification/Blend.thy ===== *)
theory Blend
  imports Frame
begin

text \<open>
  The Blender: \<open>cv2.addWeighted(frame, 1-alpha, delayed_inverted, alpha, 0)\<close>
  (\<open>src/main.py\<close>, line 11). OpenCV computes, for every channel sample,
  \<open>saturate_cast<uchar>(src1 * alpha + src2 * beta + gamma)\<close>: the weighted sum,
  rounded to the nearest integer with ties to even (\<open>cvRound\<close>), then clamped to
  \<open>[0, 255]\<close>. Arrays of different shape raise \<open>cv2.error\<close>. The weights are
  exact rationals here; OpenCV's single-precision arithmetic is not modelled.
\<close>

definition round_half_even :: "rat \<Rightarrow> int" where
  "round_half_even x =
     (let f = \<lfloor>x\<rfloor>; d = x - of_int f
      in if d < 1/2 then f else if 1/2 < d then f + 1 else if even f then f else f + 1)"

definition saturate_u8 :: "int \<Rightarrow> sample" where
  "saturate_u8 i = word_of_int (max 0 (min 255 i))"

definition add_weighted_sample :: "rat \<Rightarrow> rat \<Rightarrow> rat \<Rightarrow> sample \<Rightarrow> sample \<Rightarrow> sample" where
  "add_weighted_sample alpha beta gamma a b =
     saturate_u8 (round_half_even (of_nat (unat a) * alpha + of_nat (unat b) * beta + gamma))"

primrec add_weighted_pixel :: "rat \<Rightarrow> rat \<Rightarrow> rat \<Rightarrow> pixel \<Rightarrow> pixel \<Rightarrow> pixel" where
  "add_weighted_pixel alpha beta gamma (BGR b g r) q =
     BGR (add_weighted_sample alpha beta gamma b (px_b q))
         (add_weighted_sample alpha beta gamma g (px_g q))
         (add_weighted_sample alpha beta gamma r (px_r q))"

definition add_weighted :: "frame \<Rightarrow> rat \<Rightarrow> frame \<Rightarrow> rat \<Rightarrow> rat \<Rightarrow> py_error + frame" where
  "add_weighted src1 alpha src2 beta gamma =
     (if frame_shape src1 \<noteq> frame_shape src2 then Inl CvSizeMismatch
      else Inr (map2 (map2 (add_weighted_pixel alpha beta gamma)) src1 src2))"

subsection \<open>Rounding and saturation\<close>

lemma round_half_even_of_int [simp]: "round_half_even (of_int i) = i"
  by (simp add: round_half_even_def)

lemma round_half_even_of_nat [simp]: "round_half_even (of_nat n) = int n"
  using round_half_even_of_int [of "int n"] by simp

lemma round_half_even_unsigned [simp]: "round_half_even (unsigned v) = uint v"
  using round_half_even_of_nat [of "unat v"] by simp

lemma round_half_even_floor: "\<lfloor>x\<rfloor> \<le> round_half_even x"
  by (simp add: round_half_even_def Let_def)

lemma round_half_even_ceiling: "round_half_even x \<le> \<lceil>x\<rceil>"
proof (cases "x = of_int \<lfloor>x\<rfloor>")
  case True
  then have "round_half_even x = \<lfloor>x\<rfloor>"
    by (metis round_half_even_of_int floor_of_int)
  then show ?thesis by (simp only: floor_le_ceiling)
next
  case False
  then have "\<lceil>x\<rceil> = \<lfloor>x\<rfloor> + 1"
    by (metis ceiling_altdef)
  then show ?thesis by (simp add: round_half_even_def Let_def)
qed

lemma round_half_even_between:
  "of_int lo \<le> x \<Longrightarrow> x \<le> of_int hi \<Longrightarrow> lo \<le> round_half_even x \<and> round_half_even x \<le> hi"
  using round_half_even_floor [of x] round_half_even_ceiling [of x]
  by (meson ceiling_le le_floor_iff order_trans)

lemma round_half_even_error: "\<bar>of_int (round_half_even x) - x\<bar> \<le> 1/2"
proof -
  have "of_int \<lfloor>x\<rfloor> \<le> x" "x < of_int \<lfloor>x\<rfloor> + 1" by linarith+
  then show ?thesis by (auto simp: round_half_even_def Let_def)
qed

lemma saturate_u8_uint [simp]: "saturate_u8 (uint v) = v"
proof -
  have "uint v < 2 ^ LENGTH(8)" by (rule unsigned_less)
  then have "uint v \<le> 255" by simp
  then show ?thesis by (simp add: saturate_u8_def)
qed

lemma unat_saturate_u8:
  "0 \<le> i \<Longrightarrow> i \<le> 255 \<Longrightarrow> unat (saturate_u8 i) = nat i"
  by (simp add: saturate_u8_def unat_eq_nat_uint uint_word_of_int_eq take_bit_int_eq_self)

subsection \<open>The blend laws\<close>

lemma add_weighted_sample_1_0 [simp]: "add_weighted_sample 1 0 0 a b = a"
  by (simp add: add_weighted_sample_def)

lemma add_weighted_sample_0_1 [simp]: "add_weighted_sample 0 1 0 a b = b"
  by (simp add: add_weighted_sample_def)

lemma add_weighted_pixel_1_0: "add_weighted_pixel 1 0 0 = (\<lambda>p q. p)"
proof (intro ext)
  fix p q show "add_weighted_pixel 1 0 0 p q = p" by (cases p) simp
qed

lemma add_weighted_pixel_0_1: "add_weighted_pixel 0 1 0 = (\<lambda>p q. q)"
proof (intro ext)
  fix p q show "add_weighted_pixel 0 1 0 p q = q" by (cases p; cases q) simp
qed

lemma add_weighted_shape:
  "add_weighted a alpha b beta gamma = Inr c \<Longrightarrow> frame_shape c = frame_shape a"
proof -
  assume "add_weighted a alpha b beta gamma = Inr c"
  then have "map length a = map length b" "c = map2 (map2 (add_weighted_pixel alpha beta gamma)) a b"
    by (auto simp: add_weighted_def frame_shape_def split: if_splits)
  then show ?thesis by (simp only: frame_shape_def map2_map2_shape)
qed

text \<open>
  Half opacity against the inverted sample gives mid-grey: \<open>v/2 + (255 - v)/2 = 127.5\<close>,
  which rounds half to even up to 128.
\<close>

lemma round_half_even_255_2: "round_half_even (255 / 2) = 128"
proof -
  have "\<lfloor>(255 / 2 :: rat)\<rfloor> = 127"
    using floor_divide_of_int_eq [of 255 2, where 'a = rat] by simp
  then show ?thesis by (simp add: round_half_even_def Let_def)
qed
lemma add_weighted_sample_half_invert: "add_weighted_sample (1/2) (1/2) 0 a (invert_sample a) = 128"
proof -
  have eq: "of_nat (unat a) * (1/2) + of_nat (unat (invert_sample a)) * (1/2) + 0 = (255 / 2 :: rat)"
    using unat_u8_le [of a] by (simp add: unat_invert_sample of_nat_diff field_simps)
  show ?thesis unfolding add_weighted_sample_def
    by (simp only: eq round_half_even_255_2) (simp add: saturate_u8_def)
qed
lemma add_weighted_pixel_half_invert:
  "add_weighted_pixel (1/2) (1/2) 0 p (invert_pixel p) = BGR 128 128 128"
  by (cases p) (simp add: add_weighted_sample_half_invert)
text \<open>At opacity 1/2 a blended sample is the rounded mean of its two inputs.\<close>

lemma add_weighted_half_bounds:
  fixes a b :: sample
  defines "x \<equiv> (of_nat (unat a + unat b) / 2 :: rat)"
  shows "\<lfloor>x\<rfloor> \<le> int (unat (add_weighted_sample (1/2) (1/2) 0 a b)) \<and>
         int (unat (add_weighted_sample (1/2) (1/2) 0 a b)) \<le> \<lceil>x\<rceil>"
proof -
  have eq: "of_nat (unat a) * (1/2) + of_nat (unat b) * (1/2) + 0 = x"
    by (simp add: x_def field_simps)
  have "unat a + unat b \<le> 510" using unat_u8_le [of a] unat_u8_le [of b] by linarith
  then have "(of_nat (unat a + unat b) :: rat) \<le> 510" by (simp only: of_nat_le_numeral_iff)
  then have "x \<le> 255" by (simp add: x_def)
  then have hi: "\<lceil>x\<rceil> \<le> 255" by (simp add: ceiling_le_iff)
  have "(0::rat) \<le> of_nat (unat a + unat b)" by (simp only: of_nat_0_le_iff)
  then have "0 \<le> x" unfolding x_def by (rule divide_nonneg_pos) simp
  then have lo: "0 \<le> \<lfloor>x\<rfloor>" by (simp only: zero_le_floor)
  let ?r = "round_half_even x"
  have r: "\<lfloor>x\<rfloor> \<le> ?r" "?r \<le> \<lceil>x\<rceil>" by (rule round_half_even_floor, rule round_half_even_ceiling)
  then have "unat (saturate_u8 ?r) = nat ?r" using lo hi by (intro unat_saturate_u8) linarith+
  moreover have "add_weighted_sample (1/2) (1/2) 0 a b = saturate_u8 ?r"
    unfolding add_weighted_sample_def by (simp only: eq)
  ultimately have "unat (add_weighted_sample (1/2) (1/2) 0 a b) = nat ?r" by simp
  moreover have "0 \<le> ?r" using lo r(1) by linarith
  ultimately have "int (unat (add_weighted_sample (1/2) (1/2) 0 a b)) = ?r" by simp
  with r show ?thesis by linarith
qed

lemma add_weighted_half_dark:
  "unat a + unat b \<le> 100 \<Longrightarrow> unat (add_weighted_sample (1/2) (1/2) 0 a b) \<le> 50"
proof -
  assume s: "unat a + unat b \<le> 100"
  have "(of_nat (unat a + unat b) / 2 :: rat) \<le> of_int 50"
  proof -
    have "(of_nat (unat a + unat b) :: rat) \<le> 100" using s by (simp only: of_nat_le_numeral_iff) 
    then show ?thesis by simp
  qed
  then have "\<lceil>(of_nat (unat a + unat b) / 2 :: rat)\<rceil> \<le> 50" by (simp only: ceiling_le_iff)
  with add_weighted_half_bounds [of a b] show ?thesis by linarith
qed

lemma add_weighted_half_bright:
  "102 \<le> unat a + unat b \<Longrightarrow> 50 < unat (add_weighted_sample (1/2) (1/2) 0 a b)"
proof -
  assume s: "102 \<le> unat a + unat b"
  have "(of_int 51 :: rat) \<le> of_nat (unat a + unat b) / 2"
  proof -
    have "(of_nat 102 :: rat) \<le> of_nat (unat a + unat b)" using s by (simp only: of_nat_le_iff)
    then show ?thesis by simp
  qed
  then have "51 \<le> \<lfloor>(of_nat (unat a + unat b) / 2 :: rat)\<rfloor>" by (simp only: le_floor_iff)
  with add_weighted_half_bounds [of a b] show ?thesis by linarith
qed

subsection \<open>Properties of the Blender\<close>

text \<open>
  C6. A convex combination of two samples needs no saturation: for an opacity in
  \<open>[0, 1]\<close>, every blended sample lies between the two input samples.
\<close>

theorem add_weighted_sample_between:
  assumes "0 \<le> alpha" "alpha \<le> 1"
  shows "min (unat a) (unat b) \<le> unat (add_weighted_sample (1 - alpha) alpha 0 a b) \<and>
         unat (add_weighted_sample (1 - alpha) alpha 0 a b) \<le> max (unat a) (unat b)"
proof -
  let ?a = "of_nat (unat a) :: rat" and ?b = "of_nat (unat b) :: rat"
  let ?x = "?a * (1 - alpha) + ?b * alpha"
  let ?lo = "int (min (unat a) (unat b))" and ?hi = "int (max (unat a) (unat b))"
  have c: "min ?a ?b \<le> ?x \<and> ?x \<le> max ?a ?b" by (rule convex_between) (use assms in auto)
  have "of_int ?lo = min ?a ?b" "of_int ?hi = max ?a ?b"
    by (simp_all only: of_int_of_nat_eq of_nat_min of_nat_max)
  with c have "of_int ?lo \<le> ?x" "?x \<le> of_int ?hi" by simp_all
  then have r: "?lo \<le> round_half_even ?x" "round_half_even ?x \<le> ?hi"
    using round_half_even_between by blast+
  moreover have "?hi \<le> 255" using unat_u8_le [of a] unat_u8_le [of b] by (simp add: max_def)
  ultimately have "0 \<le> round_half_even ?x" "round_half_even ?x \<le> 255" by linarith+
  then have "unat (saturate_u8 (round_half_even ?x)) = nat (round_half_even ?x)"
    by (rule unat_saturate_u8)
  moreover have "min (unat a) (unat b) \<le> nat (round_half_even ?x) \<and>
                 nat (round_half_even ?x) \<le> max (unat a) (unat b)"
    using r by arith
  ultimately show ?thesis by (simp only: add_weighted_sample_def add_0_right)
qed

text \<open>
  C4. Blend boundary law at opacity 0: \<open>cv2.addWeighted(frame, 1 - 0, delayed, 0, 0)\<close>
  returns the current frame unchanged, for every pair of frames of equal shape.
\<close>

theorem add_weighted_opacity_0:
  "frame_shape cur = frame_shape delayed \<Longrightarrow> add_weighted cur (1 - 0) delayed 0 0 = Inr cur"
  by (simp add: add_weighted_def add_weighted_pixel_1_0 map2_map2_left frame_shape_def)

text \<open>
  C5. Blend boundary law at opacity 1: \<open>cv2.addWeighted(frame, 1 - 1, delayed, 1, 0)\<close>
  returns the delayed frame, for every pair of frames of equal shape.
\<close>

theorem add_weighted_opacity_1:
  "frame_shape cur = frame_shape delayed \<Longrightarrow> add_weighted cur (1 - 1) delayed 1 0 = Inr delayed"
  by (simp add: add_weighted_def add_weighted_pixel_0_1 map2_map2_right frame_shape_def)

subsection \<open>Witnesses\<close>

theorem add_weighted_sample_between_witness:
  "(0::rat) \<le> 1/2 \<and> (1/2::rat) \<le> 1 \<and>
   min (unat (10::sample)) (unat (200::sample)) \<le> unat (add_weighted_sample (1 - 1/2) (1/2) 0 10 200) \<and>
   unat (add_weighted_sample (1 - 1/2) (1/2) 0 10 200) \<le> max (unat (10::sample)) (unat (200::sample))"
  using add_weighted_sample_between [of "1/2" 10 200] by simp

theorem add_weighted_opacity_0_witness:
  "frame_shape [[BGR 1 2 3]] = frame_shape [[BGR 4 5 6]] \<and>
   add_weighted [[BGR 1 2 3]] (1 - 0) [[BGR 4 5 6]] 0 0 = Inr [[BGR 1 2 3]]"
  using add_weighted_opacity_0 [of "[[BGR 1 2 3]]" "[[BGR 4 5 6]]"] by (simp add: frame_shape_def)

theorem add_weighted_opacity_1_witness:
  "frame_shape [[BGR 1 2 3]] = frame_shape [[BGR 4 5 6]] \<and>
   add_weighted [[BGR 1 2 3]] (1 - 1) [[BGR 4 5 6]] 1 0 = Inr [[BGR 4 5 6]]"
  using add_weighted_opacity_1 [of "[[BGR 1 2 3]]" "[[BGR 4 5 6]]"] by (simp add: frame_shape_def)

end
