(* ===== verification/DelayBuffer.thy ===== *)
theory DelayBuffer
  imports Blend
begin

text \<open>
  The DelayBuffer and the per-frame blend: \<open>process_frame\<close> (\<open>src/main.py\<close>,
  lines 5--14). The Python list \<open>buffer\<close> is mutated in place by \<open>append\<close>; the
  model returns the new buffer with the blended frame. The delay is a Python \<open>int\<close>
  and the lookup \<open>buffer[-(delay+1)]\<close> is Python's negative indexing, so the model
  also covers delays the caller never passes (negative ones).

  Beside the code stands the abstract specification of the component: the buffer is
  the inverted history of raw frames, \<open>lookback\<close> fetches the inverted frame
  \<open>d\<close> steps behind the newest, and \<open>blend\<close> is the warm-up policy of the spec
  (no delayed frame: the current frame unchanged).
\<close>

definition process_frame ::
  "frame \<Rightarrow> frame list \<Rightarrow> int \<Rightarrow> rat \<Rightarrow> py_error + (frame list \<times> frame)" where
  "process_frame frame buffer delay alpha =
     (let inverted = invert_frame frame;
          buffer' = buffer @ [inverted]
      in if delay < int (length buffer') then
           (case py_index buffer' (- (delay + 1)) of
              Inl e \<Rightarrow> Inl e
            | Inr delayed_inverted \<Rightarrow>
                (case add_weighted frame (1 - alpha) delayed_inverted alpha 0 of
                   Inl e \<Rightarrow> Inl e
                 | Inr blended \<Rightarrow> Inr (buffer', blended)))
         else Inr (buffer', frame))"

subsection \<open>Abstract specification\<close>

definition lookback :: "frame list \<Rightarrow> nat \<Rightarrow> frame option" where
  "lookback hist d =
     (if d < length hist then Some (invert_frame (hist ! (length hist - 1 - d))) else None)"

fun blend :: "frame \<Rightarrow> frame option \<Rightarrow> rat \<Rightarrow> py_error + frame" where
  "blend cur None alpha = Inr cur"
| "blend cur (Some delayed) alpha = add_weighted cur (1 - alpha) delayed alpha 0"

text \<open>The output the specification promises for the newest frame of a history.\<close>

definition spec_output :: "nat \<Rightarrow> rat \<Rightarrow> frame list \<Rightarrow> frame" where
  "spec_output d alpha hist =
     (case lookback hist d of
        None \<Rightarrow> last hist
      | Some delayed \<Rightarrow> map2 (map2 (add_weighted_pixel (1 - alpha) alpha 0)) (last hist) delayed)"

text \<open>Running \<open>process_frame\<close> over a stream with fixed control parameters.\<close>

fun process_stream ::
  "frame list \<Rightarrow> int \<Rightarrow> rat \<Rightarrow> frame list \<Rightarrow> py_error + (frame list \<times> frame list)" where
  "process_stream buf delay alpha [] = Inr (buf, [])"
| "process_stream buf delay alpha (f # fs) =
     (case process_frame f buf delay alpha of
        Inl e \<Rightarrow> Inl e
      | Inr (buf', out) \<Rightarrow>
          (case process_stream buf' delay alpha fs of
             Inl e \<Rightarrow> Inl e
           | Inr (buf'', outs) \<Rightarrow> Inr (buf'', out # outs)))"

subsection \<open>Lemmas\<close>

lemma map_invert_snoc: "map invert_frame hist @ [invert_frame f] = map invert_frame (hist @ [f])"
  by simp

lemma process_frame_lookup:
  assumes "d < length hist"
  shows "py_index (map invert_frame hist) (- (int d + 1)) =
         Inr (invert_frame (hist ! (length hist - 1 - d)))"
proof -
  have "py_index (map invert_frame hist) (- (int d + 1)) =
        Inr (map invert_frame hist ! (length (map invert_frame hist) - nat (int d + 1)))"
    by (rule py_index_neg) (use assms in auto)
  moreover have "length hist - nat (int d + 1) = length hist - 1 - d" by simp
  moreover have "map invert_frame hist ! (length hist - 1 - d) = invert_frame (hist ! (length hist - 1 - d))"
    using assms by (intro nth_map) arith
  ultimately show ?thesis by (simp only: length_map)
qed

lemma add_weighted_same_shape:
  "frame_shape a = frame_shape b \<Longrightarrow>
   add_weighted a alpha b beta gamma = Inr (map2 (map2 (add_weighted_pixel alpha beta gamma)) a b)"
  by (simp add: add_weighted_def)

lemma process_frame_unfold:
  "process_frame f (map invert_frame hist) (int d) alpha =
     (if d < length (hist @ [f]) then
        (case add_weighted f (1 - alpha) (invert_frame ((hist @ [f]) ! (length (hist @ [f]) - 1 - d)))
                alpha 0 of
           Inl e \<Rightarrow> Inl e
         | Inr blended \<Rightarrow> Inr (map invert_frame (hist @ [f]), blended))
      else Inr (map invert_frame (hist @ [f]), f))"
proof (cases "d < length (hist @ [f])")
  case True
  then have "py_index (map invert_frame (hist @ [f])) (- (int d + 1)) =
             Inr (invert_frame ((hist @ [f]) ! (length (hist @ [f]) - 1 - d)))"
    by (rule process_frame_lookup)
  with True show ?thesis
    by (simp only: process_frame_def Let_def map_invert_snoc) simp
next
  case False
  then show ?thesis by (simp add: process_frame_def Let_def)
qed

lemma lookback_snoc:
  "lookback (hist @ [f]) d =
     (if d < length (hist @ [f])
      then Some (invert_frame ((hist @ [f]) ! (length (hist @ [f]) - 1 - d))) else None)"
  by (simp only: lookback_def)

text \<open>
  C1. Refinement of the DelayBuffer specification: when the buffer holds the inverted
  history of the raw frames and the delay is non-negative, \<open>process_frame\<close> appends
  the inverted new frame and returns exactly what the specification's \<open>blend\<close> of
  the current frame with \<open>lookback(delay)\<close> returns, errors included.
\<close>

theorem process_frame_refines:
  "process_frame f (map invert_frame hist) (int d) alpha =
     (case blend f (lookback (hist @ [f]) d) alpha of
        Inl e \<Rightarrow> Inl e
      | Inr out \<Rightarrow> Inr (map invert_frame (hist @ [f]), out))"
  by (simp only: process_frame_unfold lookback_snoc split: if_split) simp

text \<open>
  C7. The buffer invariant: whatever the delay and opacity, a call that returns has
  grown the buffer by exactly one element, the inverted input frame, at its end.
\<close>

theorem process_frame_appends:
  "process_frame f buf delay alpha = Inr (buf', out) \<Longrightarrow> buf' = buf @ [invert_frame f]"
  by (auto simp: process_frame_def Let_def split: if_splits sum.splits)

lemma blend_lookback_shape:
  assumes "list_all (is_frame h w) hist" "hist \<noteq> []"
  shows "blend (last hist) (lookback hist d) alpha = Inr (spec_output d alpha hist)"
proof (cases "d < length hist")
  case True
  let ?x = "hist ! (length hist - 1 - d)"
  have all: "\<forall>x \<in> set hist. is_frame h w x" using assms(1) by (simp only: list_all_iff)
  have "last hist \<in> set hist" using assms(2) by (rule last_in_set)
  moreover have "?x \<in> set hist" using True by (intro nth_mem) arith
  ultimately have "is_frame h w (last hist)" "is_frame h w ?x" using all by blast+
  then have "frame_shape (last hist) = frame_shape ?x" by (rule frame_shape_eq_is_frame)
  then have sh: "frame_shape (last hist) = frame_shape (invert_frame ?x)"
    by (simp only: frame_shape_invert)
  have lb: "lookback hist d = Some (invert_frame ?x)" using True by (simp add: lookback_def)
  have "blend (last hist) (lookback hist d) alpha =
        add_weighted (last hist) (1 - alpha) (invert_frame ?x) alpha 0"
    by (simp only: lb blend.simps)
  also have "\<dots> = Inr (map2 (map2 (add_weighted_pixel (1 - alpha) alpha 0)) (last hist) (invert_frame ?x))"
    using sh by (rule add_weighted_same_shape)
  also have "\<dots> = Inr (spec_output d alpha hist)"
    by (simp only: spec_output_def lb option.case)
  finally show ?thesis .
next
  case False
  then have "lookback hist d = None" by (simp add: lookback_def)
  then show ?thesis by (simp add: spec_output_def)
qed

lemma process_frame_well_shaped:
  assumes "list_all (is_frame h w) (hist @ [f])"
  shows "process_frame f (map invert_frame hist) (int d) alpha =
         Inr (map invert_frame (hist @ [f]), spec_output d alpha (hist @ [f]))"
proof -
  have "blend (last (hist @ [f])) (lookback (hist @ [f]) d) alpha = Inr (spec_output d alpha (hist @ [f]))"
    using assms by (intro blend_lookback_shape) auto
  then show ?thesis by (simp add: process_frame_unfold lookback_snoc split: if_splits)
qed

lemma process_stream_spec:
  "list_all (is_frame h w) (hist @ fs) \<Longrightarrow>
   \<exists>outs. process_stream (map invert_frame hist) (int d) alpha fs =
            Inr (map invert_frame (hist @ fs), outs) \<and> length outs = length fs \<and>
          (\<forall>t < length fs. outs ! t = spec_output d alpha (hist @ take (Suc t) fs))"
proof (induction fs arbitrary: hist)
  case Nil
  then show ?case by simp
next
  case (Cons f fs)
  have pf: "process_frame f (map invert_frame hist) (int d) alpha =
            Inr (map invert_frame (hist @ [f]), spec_output d alpha (hist @ [f]))"
    using Cons.prems by (intro process_frame_well_shaped [where h = h and w = w]) simp
  from Cons.prems have "list_all (is_frame h w) ((hist @ [f]) @ fs)" by simp
  then obtain outs where
    run: "process_stream (map invert_frame (hist @ [f])) (int d) alpha fs =
          Inr (map invert_frame ((hist @ [f]) @ fs), outs)"
    and len: "length outs = length fs"
    and nth: "\<forall>t < length fs. outs ! t = spec_output d alpha ((hist @ [f]) @ take (Suc t) fs)"
    using Cons.IH by blast
  let ?outs = "spec_output d alpha (hist @ [f]) # outs"
  have "process_stream (map invert_frame hist) (int d) alpha (f # fs) =
        Inr (map invert_frame (hist @ f # fs), ?outs)"
    using pf run by simp
  moreover have "\<forall>t < length (f # fs). ?outs ! t = spec_output d alpha (hist @ take (Suc t) (f # fs))"
  proof (intro allI impI)
    fix t assume "t < length (f # fs)"
    then show "?outs ! t = spec_output d alpha (hist @ take (Suc t) (f # fs))"
      using nth by (cases t) auto
  qed
  ultimately show ?case using len by auto
qed

lemma spec_output_take:
  assumes "t < length fs"
  shows "spec_output d alpha (take (Suc t) fs) =
           (if t < d then fs ! t
            else map2 (map2 (add_weighted_pixel (1 - alpha) alpha 0)) (fs ! t) (invert_frame (fs ! (t - d))))"
proof -
  have tk: "take (Suc t) fs = take t fs @ [fs ! t]" using assms by (rule take_Suc_conv_app_nth)
  then have "last (take (Suc t) fs) = fs ! t" by simp
  moreover have "length (take (Suc t) fs) = Suc t" using assms by simp
  moreover have "\<not> t < d \<Longrightarrow> take (Suc t) fs ! (t - d) = fs ! (t - d)" by simp
  ultimately show ?thesis by (simp add: spec_output_def lookback_def)
qed

lemma list_all_nth_is_frame:
  "list_all (is_frame h w) fs \<Longrightarrow> i < length fs \<Longrightarrow> is_frame h w (fs ! i)"
  by (simp add: list_all_length)

text \<open>On frames of one size and a non-negative delay, \<open>process_frame\<close> never raises.\<close>

lemma process_frame_total:
  assumes "list_all (is_frame h w) buf" "is_frame h w f" "0 \<le> delay"
  shows "\<exists>buf' out. process_frame f buf delay alpha = Inr (buf', out)"
proof (cases "delay < int (length (buf @ [invert_frame f]))")
  case True
  let ?b = "buf @ [invert_frame f]"
  let ?i = "length ?b - nat (delay + 1)"
  have idx: "py_index ?b (- (delay + 1)) = Inr (?b ! ?i)"
    by (rule py_index_neg) (use assms(3) True in auto)
  have "?i < length ?b" using assms(3) True by linarith
  then have "is_frame h w (?b ! ?i)" using assms(1,2) by (simp add: nth_append list_all_length)
  then have "frame_shape f = frame_shape (?b ! ?i)" using assms(2) frame_shape_eq_is_frame by blast
  then show ?thesis using True idx by (simp add: process_frame_def Let_def add_weighted_same_shape)
next
  case False
  then show ?thesis by (simp add: process_frame_def Let_def)
qed

text \<open>\<open>cv2.addWeighted\<close> never raises \<open>IndexError\<close>.\<close>

lemma add_weighted_not_index: "add_weighted a x b y z \<noteq> Inl IndexError"
  by (simp add: add_weighted_def)

subsection \<open>Properties of the DelayBuffer\<close>

text \<open>
  C2. Delay correctness: on a stream of well-formed frames of one size, processed from an
  empty buffer with a fixed delay \<open>d\<close>, the output at every step \<open>t \<ge> d\<close> is
  \<open>cv2.addWeighted\<close> of the frame of step \<open>t\<close> with the inverted frame of step
  \<open>t - d\<close>, and the buffer ends as the inverted stream.
\<close>

theorem process_stream_delay:
  assumes "list_all (is_frame h w) fs" "t < length fs" "d \<le> t"
  shows "\<exists>outs. process_stream [] (int d) alpha fs = Inr (map invert_frame fs, outs) \<and>
           add_weighted (fs ! t) (1 - alpha) (invert_frame (fs ! (t - d))) alpha 0 = Inr (outs ! t)"
proof -
  obtain outs where run: "process_stream [] (int d) alpha fs = Inr (map invert_frame fs, outs)"
    and nth: "\<forall>t < length fs. outs ! t = spec_output d alpha (take (Suc t) fs)"
    using process_stream_spec [of h w "[]" fs d alpha] assms(1) by auto
  have "is_frame h w (fs ! t)" "is_frame h w (fs ! (t - d))"
    using assms by (simp_all add: list_all_nth_is_frame)
  then have "frame_shape (fs ! t) = frame_shape (fs ! (t - d))" by (rule frame_shape_eq_is_frame)
  then have "frame_shape (fs ! t) = frame_shape (invert_frame (fs ! (t - d)))"
    by (simp only: frame_shape_invert)
  then have "add_weighted (fs ! t) (1 - alpha) (invert_frame (fs ! (t - d))) alpha 0 =
             Inr (spec_output d alpha (take (Suc t) fs))"
    using assms(2,3) by (simp add: add_weighted_same_shape spec_output_take)
  with run nth assms(2) show ?thesis by auto
qed

text \<open>
  C3. Warm-up law: during the first \<open>d\<close> steps of a stream of well-formed frames
  the buffer is not deep enough, and the output is the raw current frame, unchanged.
\<close>

theorem process_stream_warmup:
  assumes "list_all (is_frame h w) fs" "t < length fs" "t < d"
  shows "\<exists>outs. process_stream [] (int d) alpha fs = Inr (map invert_frame fs, outs) \<and>
           outs ! t = fs ! t"
proof -
  obtain outs where run: "process_stream [] (int d) alpha fs = Inr (map invert_frame fs, outs)"
    and nth: "\<forall>t < length fs. outs ! t = spec_output d alpha (take (Suc t) fs)"
    using process_stream_spec [of h w "[]" fs d alpha] assms(1) by auto
  with assms(2,3) show ?thesis by (auto simp: spec_output_take)
qed

text \<open>
  C8. The error path of \<open>process_frame\<close>: when the frame \<open>delay\<close> steps back has a
  different shape from the current frame, \<open>cv2.addWeighted\<close> raises and the call
  fails with that error (after the buffer was appended to).
\<close>

theorem process_frame_shape_error:
  assumes "0 < d" "d \<le> length buf" "frame_shape f \<noteq> frame_shape (buf ! (length buf - d))"
  shows "process_frame f buf (int d) alpha = Inl CvSizeMismatch"
proof -
  let ?b = "buf @ [invert_frame f]"
  have "py_index ?b (- (int d + 1)) = Inr (?b ! (length ?b - nat (int d + 1)))"
    by (rule py_index_neg) (use assms in auto)
  moreover have "length ?b - nat (int d + 1) = length buf - d" by simp
  moreover have "length buf - d < length buf" using assms(1,2) by arith
  then have "?b ! (length buf - d) = buf ! (length buf - d)" by (simp add: nth_append)
  ultimately have "py_index ?b (- (int d + 1)) = Inr (buf ! (length buf - d))" by simp
  moreover have "add_weighted f (1 - alpha) (buf ! (length buf - d)) alpha 0 = Inl CvSizeMismatch"
    using assms(3) by (simp add: add_weighted_def)
  ultimately show ?thesis using assms(2) by (simp add: process_frame_def Let_def)
qed

text \<open>
  C33. Exactly when line 10 raises: \<open>buffer[-(delay+1)]\<close> is out of range exactly
  when the delay is below \<open>-(len(buffer) + 1)\<close>, the buffer counted after the append.
  A non-negative delay never raises (the guard of line 9 keeps the index in range); a
  negative delay turns the index into a forward one (\<open>-1\<close> reads the oldest
  frame), which only the clamp \<open>max(1, ...)\<close> of line 64 keeps out of the program.
\<close>

theorem process_frame_index_error:
  "(process_frame f buf delay alpha = Inl IndexError) = (delay < - int (length buf + 1))"
proof (cases "delay < int (length buf + 1)")
  case True
  let ?b = "buf @ [invert_frame f]"
  have idx: "(py_index ?b (- (delay + 1)) = Inl IndexError) = (delay < - int (length buf + 1))"
    using True by (simp add: py_index_def Let_def)
  show ?thesis using True idx
    by (auto simp: process_frame_def Let_def add_weighted_not_index split: sum.splits)
next
  case False
  then show ?thesis by (simp add: process_frame_def Let_def)
qed

subsection \<open>Witnesses\<close>

theorem process_stream_delay_witness:
  "list_all (is_frame 1 1) [[[BGR 0 0 0]], [[BGR 40 40 40]]] \<and> (1::nat) < 2 \<and> (1::nat) \<le> 1 \<and>
   (\<exists>outs. process_stream [] (int 1) (1/2) [[[BGR 0 0 0]], [[BGR 40 40 40]]] =
             Inr (map invert_frame [[[BGR 0 0 0]], [[BGR 40 40 40]]], outs) \<and>
           add_weighted [[BGR 40 40 40]] (1 - 1/2) (invert_frame [[BGR 0 0 0]]) (1/2) 0 = Inr (outs ! 1))"
proof -
  have fr: "list_all (is_frame 1 1) [[[BGR 0 0 0]], [[BGR 40 40 40]]]" by (simp add: is_frame_def)
  show ?thesis
    using process_stream_delay [OF fr, where t = 1 and d = 1 and alpha = "1/2"] fr by simp
qed

theorem process_stream_warmup_witness:
  "list_all (is_frame 1 1) [[[BGR 0 0 0]], [[BGR 40 40 40]]] \<and> (1::nat) < 2 \<and> (1::nat) < 3 \<and>
   (\<exists>outs. process_stream [] (int 3) (1/2) [[[BGR 0 0 0]], [[BGR 40 40 40]]] =
             Inr (map invert_frame [[[BGR 0 0 0]], [[BGR 40 40 40]]], outs) \<and>
           outs ! 1 = [[BGR 40 40 40]])"
proof -
  have fr: "list_all (is_frame 1 1) [[[BGR 0 0 0]], [[BGR 40 40 40]]]" by (simp add: is_frame_def)
  show ?thesis
    using process_stream_warmup [OF fr, where t = 1 and d = 3 and alpha = "1/2"] fr by simp
qed

theorem process_frame_appends_witness:
  "process_frame [[BGR 0 0 0]] [] 1 (1/2) = Inr ([invert_frame [[BGR 0 0 0]]], [[BGR 0 0 0]]) \<and>
   [invert_frame [[BGR 0 0 0]]] = [] @ [invert_frame [[BGR 0 0 0]]]"
proof -
  have run: "process_frame [[BGR 0 0 0]] [] 1 (1/2) = Inr ([invert_frame [[BGR 0 0 0]]], [[BGR 0 0 0]])"
    by (simp add: process_frame_def)
  show ?thesis using process_frame_appends [OF run] run by simp
qed

theorem process_frame_shape_error_witness:
  "(0::nat) < 1 \<and> (1::nat) \<le> length [[[BGR 0 0 0]]] \<and>
   frame_shape [[BGR 1 1 1, BGR 2 2 2]] \<noteq> frame_shape ([[[BGR 0 0 0]]] ! (length [[[BGR 0 0 0]]] - 1)) \<and>
   process_frame [[BGR 1 1 1, BGR 2 2 2]] [[[BGR 0 0 0]]] (int 1) (1/2) = Inl CvSizeMismatch"
proof -
  have h: "frame_shape [[BGR 1 1 1, BGR 2 2 2]] \<noteq> frame_shape ([[[BGR 0 0 0]]] ! (length [[[BGR 0 0 0]]] - 1))"
    by (simp add: frame_shape_def)
  show ?thesis
    using process_frame_shape_error [where d = 1 and buf = "[[[BGR 0 0 0]]]", OF _ _ h] h by simp
qed

theorem process_frame_index_error_witness:
  "process_frame [[BGR 0 0 0]] [] (-2) (1/2) = Inl IndexError \<and>
   process_frame [[BGR 0 0 0]] [] (-1) (1/2) \<noteq> Inl IndexError"
  using process_frame_index_error [of "[[BGR 0 0 0]]" "[]" "-2" "1/2"]
        process_frame_index_error [of "[[BGR 0 0 0]]" "[]" "-1" "1/2"] by simp
end
