(* ===== verification/Detect.thy ===== *)
theory Detect
  imports Frame
begin

text \<open>
  The BlobDetector: \<open>detect_pupil\<close> (\<open>src/main.py\<close>, lines 16--25). Grey
  conversion and the inverse threshold are OpenCV's per-pixel formulas, modelled
  exactly: \<open>cv2.cvtColor(..., COLOR_BGR2GRAY)\<close> on 8-bit data is OpenCV 4's
  fixed-point form \<open>(3735 B + 19235 G + 9798 R + 2^14) >> 15\<close> computed in 32-bit
  arithmetic, and \<open>cv2.threshold(gray, 50, 255, THRESH_BINARY_INV)\<close> maps a sample
  above 50 to 0 and every other sample to 255. \<open>cv2.contourArea\<close> is the
  shoelace formula OpenCV uses, and \<open>max(cnts, key=cv2.contourArea)\<close> is
  \<open>py_max_key\<close>. \<open>cv2.findContours\<close> (Suzuki-Abe border following) and
  \<open>cv2.minEnclosingCircle\<close> are library algorithms the code only calls: they are
  fields of the record \<open>cv_lib\<close>, and the properties assume only their contracts
  (\<open>cv_lib_ok\<close>): contours are non-empty lists of foreground pixels and there are
  none exactly when the image has no foreground; the circle's centre lies within the
  bounding box of the contour's points. \<open>cv_test\<close> is a simple instance that meets
  the contracts, used by the witnesses.
\<close>

type_synonym gray_image = "sample list list"

type_synonym contour = "(int \<times> int) list"

record cv_lib =
  find_contours :: "gray_image \<Rightarrow> contour list"
  min_enclosing_circle :: "contour \<Rightarrow> (rat \<times> rat) \<times> rat"

definition cvt_gray_pixel :: "pixel \<Rightarrow> sample" where
  "cvt_gray_pixel p =
     ucast (drop_bit 15 (ucast (px_b p) * 3735 + ucast (px_g p) * 19235
                          + ucast (px_r p) * 9798 + 16384 :: 32 word))"

definition cvt_gray :: "frame \<Rightarrow> gray_image" where
  "cvt_gray fr = map (map cvt_gray_pixel) fr"

definition threshold_binary_inv :: "int \<Rightarrow> sample \<Rightarrow> gray_image \<Rightarrow> gray_image" where
  "threshold_binary_inv thresh maxval img =
     map (map (\<lambda>v. if thresh < int (unat v) then 0 else maxval)) img"

definition contour_area :: "contour \<Rightarrow> rat" where
  "contour_area c =
     (if c = [] then 0
      else \<bar>of_int (sum_list (map2 (\<lambda>prev p. fst prev * snd p - snd prev * fst p) (last c # c) c))\<bar> / 2)"

definition detect_pupil :: "cv_lib \<Rightarrow> frame \<Rightarrow> py_error + (int \<times> int) option" where
  "detect_pupil cv motion_frame =
     (let gray = cvt_gray motion_frame;
          thresh = threshold_binary_inv 50 255 gray;
          cnts = find_contours cv thresh
      in if cnts \<noteq> [] then
           (case py_max_key contour_area cnts of
              Inl e \<Rightarrow> Inl e
            | Inr c \<Rightarrow> (case min_enclosing_circle cv c of
                          ((x, y), radius) \<Rightarrow> Inr (Some (py_int x, py_int y))))
         else Inr None)"

subsection \<open>Contracts of the OpenCV routines\<close>

definition fg_pixel :: "gray_image \<Rightarrow> int \<times> int \<Rightarrow> bool" where
  "fg_pixel img p \<longleftrightarrow>
     (case p of (x, y) \<Rightarrow> 0 \<le> x \<and> 0 \<le> y \<and> nat y < length img \<and>
                        nat x < length (img ! nat y) \<and> img ! nat y ! nat x \<noteq> 0)"

definition has_foreground :: "gray_image \<Rightarrow> bool" where
  "has_foreground img \<longleftrightarrow> (\<exists>row \<in> set img. \<exists>v \<in> set row. v \<noteq> 0)"

definition contours_ok :: "(gray_image \<Rightarrow> contour list) \<Rightarrow> bool" where
  "contours_ok fc \<longleftrightarrow>
     (\<forall>img. (fc img = [] \<longleftrightarrow> \<not> has_foreground img) \<and>
            (\<forall>c \<in> set (fc img). c \<noteq> [] \<and> (\<forall>p \<in> set c. fg_pixel img p)))"

definition circle_ok :: "(contour \<Rightarrow> (rat \<times> rat) \<times> rat) \<Rightarrow> bool" where
  "circle_ok mec \<longleftrightarrow>
     (\<forall>c. c \<noteq> [] \<longrightarrow>
        (case mec c of ((cx, cy), r) \<Rightarrow>
           0 \<le> r \<and> (\<exists>p \<in> set c. of_int (fst p) \<le> cx) \<and> (\<exists>p \<in> set c. cx \<le> of_int (fst p)) \<and>
           (\<exists>p \<in> set c. of_int (snd p) \<le> cy) \<and> (\<exists>p \<in> set c. cy \<le> of_int (snd p))))"

definition cv_lib_ok :: "cv_lib \<Rightarrow> bool" where
  "cv_lib_ok cv \<longleftrightarrow> contours_ok (find_contours cv) \<and> circle_ok (min_enclosing_circle cv)"

subsection \<open>A test instance of the contracts\<close>

text \<open>
  All foreground pixels of the image as one contour, in raster order, and the centre
  of the bounding box as the circle.
\<close>

definition fg_points :: "gray_image \<Rightarrow> contour" where
  "fg_points img =
     concat (map (\<lambda>y. map (\<lambda>x. (int x, int y)) (filter (\<lambda>x. img ! y ! x \<noteq> 0) [0..<length (img ! y)]))
                 [0..<length img])"

definition bbox_circle :: "contour \<Rightarrow> (rat \<times> rat) \<times> rat" where
  "bbox_circle c =
     (let xs = map fst c; ys = map snd c;
          x0 = Min (set xs); x1 = Max (set xs); y0 = Min (set ys); y1 = Max (set ys)
      in ((of_int (x0 + x1) / 2, of_int (y0 + y1) / 2), of_int ((x1 - x0) + (y1 - y0))))"

definition cv_test :: cv_lib where
  "cv_test = \<lparr>find_contours = (\<lambda>img. if has_foreground img then [fg_points img] else []),
             min_enclosing_circle = bbox_circle\<rparr>"

subsection \<open>Grey conversion\<close>

lemma gray_sum_no_overflow:
  "unat (ucast (px_b p) * 3735 + ucast (px_g p) * 19235 + ucast (px_r p) * 9798 + 16384 :: 32 word) =
   unat (px_b p) * 3735 + unat (px_g p) * 19235 + unat (px_r p) * 9798 + 16384"
proof -
  let ?n = "unat (px_b p) * 3735 + unat (px_g p) * 19235 + unat (px_r p) * 9798 + 16384"
  have "?n \<le> 255 * 3735 + 255 * 19235 + 255 * 9798 + 16384"
    using unat_u8_le [of "px_b p"] unat_u8_le [of "px_g p"] unat_u8_le [of "px_r p"] by linarith
  then have lt: "?n < 2 ^ LENGTH(32)" by simp
  have hb: "(ucast (px_b p) :: 32 word) = of_nat (unat (px_b p))" by simp
  have hg: "(ucast (px_g p) :: 32 word) = of_nat (unat (px_g p))" by simp
  have hr: "(ucast (px_r p) :: 32 word) = of_nat (unat (px_r p))" by simp
  have "(ucast (px_b p) * 3735 + ucast (px_g p) * 19235 + ucast (px_r p) * 9798 + 16384 :: 32 word) =
        of_nat ?n"
    unfolding hb hg hr by (simp only: of_nat_add of_nat_mult of_nat_numeral)
  then show ?thesis using lt by (simp only: unat_of_nat mod_less)
qed

lemma unat_cvt_gray_pixel:
  "unat (cvt_gray_pixel p) =
     (unat (px_b p) * 3735 + unat (px_g p) * 19235 + unat (px_r p) * 9798 + 16384) div 32768"
proof -
  let ?n = "unat (px_b p) * 3735 + unat (px_g p) * 19235 + unat (px_r p) * 9798 + 16384"
  have "?n < 256 * 32768"
    using unat_u8_le [of "px_b p"] unat_u8_le [of "px_g p"] unat_u8_le [of "px_r p"] by linarith
  then have "?n div 32768 < 2 ^ LENGTH(8)" by (simp add: div_less_iff_less_mult)
  then have small: "take_bit 8 (?n div 32768) = ?n div 32768" by (simp add: take_bit_nat_eq_self)
  have "unat (cvt_gray_pixel p) =
        take_bit 8 (drop_bit 15 (unat (ucast (px_b p) * 3735 + ucast (px_g p) * 19235
                                         + ucast (px_r p) * 9798 + 16384 :: 32 word)))"
    by (simp only: cvt_gray_pixel_def unsigned_ucast_eq unat_drop_bit_eq) simp
  also have "\<dots> = take_bit 8 (?n div 32768)"
    by (simp only: gray_sum_no_overflow drop_bit_eq_div) simp
  finally show ?thesis using small by simp
qed

text \<open>The grey value is a weighted mean: never below the darkest channel.\<close>

lemma cvt_gray_pixel_ge_min:
  "min (unat (px_b p)) (min (unat (px_g p)) (unat (px_r p))) \<le> unat (cvt_gray_pixel p)"
proof -
  let ?m = "min (unat (px_b p)) (min (unat (px_g p)) (unat (px_r p)))"
  have "?m * 32768 \<le> unat (px_b p) * 3735 + unat (px_g p) * 19235 + unat (px_r p) * 9798 + 16384"
    by (simp add: min_def)
  then have "(?m * 32768) div 32768 \<le>
             (unat (px_b p) * 3735 + unat (px_g p) * 19235 + unat (px_r p) * 9798 + 16384) div 32768"
    by (rule div_le_mono)
  then have "?m \<le> (unat (px_b p) * 3735 + unat (px_g p) * 19235 + unat (px_r p) * 9798 + 16384) div 32768"
    by simp
  then show ?thesis by (simp only: unat_cvt_gray_pixel)
qed

subsection \<open>The test instance meets the contracts\<close>

lemma fg_points_iff: "p \<in> set (fg_points img) \<longleftrightarrow> fg_pixel img p"
proof (cases p)
  case (Pair x y)
  have "(x, y) \<in> set (fg_points img) \<longleftrightarrow>
        (\<exists>j < length img. \<exists>i < length (img ! j). img ! j ! i \<noteq> 0 \<and> x = int i \<and> y = int j)"
    by (auto simp: fg_points_def)
  also have "\<dots> \<longleftrightarrow> fg_pixel img (x, y)"
  proof
    assume "\<exists>j < length img. \<exists>i < length (img ! j). img ! j ! i \<noteq> 0 \<and> x = int i \<and> y = int j"
    then show "fg_pixel img (x, y)" by (auto simp: fg_pixel_def)
  next
    assume f: "fg_pixel img (x, y)"
    then have "nat y < length img" "nat x < length (img ! nat y)" "img ! nat y ! nat x \<noteq> 0"
      "x = int (nat x)" "y = int (nat y)" by (auto simp: fg_pixel_def)
    then show "\<exists>j < length img. \<exists>i < length (img ! j). img ! j ! i \<noteq> 0 \<and> x = int i \<and> y = int j"
      by blast
  qed
  finally show ?thesis using Pair by simp
qed

lemma has_foreground_fg_points: "has_foreground img \<Longrightarrow> fg_points img \<noteq> []"
proof -
  assume "has_foreground img"
  then obtain j i where "j < length img" "i < length (img ! j)" "img ! j ! i \<noteq> 0"
    by (auto simp: has_foreground_def in_set_conv_nth)
  then have "fg_pixel img (int i, int j)" by (simp add: fg_pixel_def)
  then show ?thesis using fg_points_iff [of "(int i, int j)" img] by auto
qed

lemma contours_ok_cv_test: "contours_ok (find_contours cv_test)"
  by (auto simp: contours_ok_def cv_test_def has_foreground_fg_points fg_points_iff)

lemma bbox_circle_ok: "circle_ok bbox_circle"
proof -
  have "c \<noteq> [] \<Longrightarrow>
        (case bbox_circle c of ((cx, cy), r) \<Rightarrow>
           0 \<le> r \<and> (\<exists>p \<in> set c. of_int (fst p) \<le> cx) \<and> (\<exists>p \<in> set c. cx \<le> of_int (fst p)) \<and>
           (\<exists>p \<in> set c. of_int (snd p) \<le> cy) \<and> (\<exists>p \<in> set c. cy \<le> of_int (snd p)))" for c
  proof -
    assume ne: "c \<noteq> []"
    let ?x0 = "Min (set (map fst c))" and ?x1 = "Max (set (map fst c))"
    let ?y0 = "Min (set (map snd c))" and ?y1 = "Max (set (map snd c))"
    have in_x: "?x0 \<in> set (map fst c)" "?x1 \<in> set (map fst c)" using ne by simp_all
    have in_y: "?y0 \<in> set (map snd c)" "?y1 \<in> set (map snd c)" using ne by simp_all
    have le: "?x0 \<le> ?x1" "?y0 \<le> ?y1" using ne by simp_all
    from in_x obtain p q where p: "p \<in> set c" "fst p = ?x0" and q: "q \<in> set c" "fst q = ?x1" by auto
    from in_y obtain p' q' where p': "p' \<in> set c" "snd p' = ?y0" and q': "q' \<in> set c" "snd q' = ?y1"
      by auto
    let ?cx = "of_int (?x0 + ?x1) / 2 :: rat" and ?cy = "of_int (?y0 + ?y1) / 2 :: rat"
    have "of_int (fst p) \<le> ?cx" "?cx \<le> of_int (fst q)" using p q le by simp_all
    moreover have "of_int (snd p') \<le> ?cy" "?cy \<le> of_int (snd q')" using p' q' le by simp_all
    moreover have "0 \<le> (of_int ((?x1 - ?x0) + (?y1 - ?y0)) :: rat)" using le by simp
    ultimately show ?thesis using p(1) q(1) p'(1) q'(1)
      by (simp add: bbox_circle_def Let_def) blast
  qed
  then show ?thesis by (auto simp: circle_ok_def)
qed

lemma cv_lib_ok_cv_test: "cv_lib_ok cv_test"
  using contours_ok_cv_test bbox_circle_ok by (simp add: cv_lib_ok_def cv_test_def)

subsection \<open>Lemmas on \<open>detect_pupil\<close>\<close>

lemma detect_pupil_SomeD:
  assumes "detect_pupil cv fr = Inr (Some (x, y))"
  obtains c cx cy r where
    "py_max_key contour_area (find_contours cv (threshold_binary_inv 50 255 (cvt_gray fr))) = Inr c"
    "min_enclosing_circle cv c = ((cx, cy), r)" "x = py_int cx" "y = py_int cy"
  using assms by (auto simp: detect_pupil_def Let_def split: if_splits sum.splits prod.splits)

lemma threshold_gray_shape:
  "length (threshold_binary_inv t m (cvt_gray fr)) = length fr"
  "k < length fr \<Longrightarrow> length (threshold_binary_inv t m (cvt_gray fr) ! k) = length (fr ! k)"
  by (simp_all add: threshold_binary_inv_def cvt_gray_def)

lemma fg_pixel_in_frame:
  assumes "is_frame h w fr" "fg_pixel (threshold_binary_inv t m (cvt_gray fr)) (a, b)"
  shows "0 \<le> a \<and> a < int w \<and> 0 \<le> b \<and> b < int h"
proof -
  from assms(2) have ab: "0 \<le> a" "0 \<le> b" "nat b < length fr"
    "nat a < length (threshold_binary_inv t m (cvt_gray fr) ! nat b)"
    by (auto simp: fg_pixel_def threshold_gray_shape)
  then have "nat a < length (fr ! nat b)" by (simp add: threshold_gray_shape)
  moreover have "length (fr ! nat b) = w" "length fr = h"
    using assms(1) ab(3) by (auto simp: is_frame_def list_all_length)
  ultimately show ?thesis using ab by linarith
qed

lemma bright_pixel_gray:
  assumes "50 < unat (px_b p) \<and> 50 < unat (px_g p) \<and> 50 < unat (px_r p)"
  shows "50 < uint (cvt_gray_pixel p)"
proof -
  have "50 < unat (cvt_gray_pixel p)" using assms cvt_gray_pixel_ge_min [of p] by linarith
  then have "int 50 < int (unat (cvt_gray_pixel p))" by (simp only: of_nat_less_iff)
  then show ?thesis by simp
qed

lemma detect_pupil_total: "\<exists>r. detect_pupil cv fr = Inr r"
proof (cases "find_contours cv (threshold_binary_inv 50 255 (cvt_gray fr))")
  case Nil
  then show ?thesis by (simp add: detect_pupil_def)
next
  case (Cons c cs)
  then show ?thesis by (simp add: detect_pupil_def split: prod.splits)
qed

text \<open>A frame whose grey image lies above the threshold everywhere has no pupil.\<close>

lemma gray_above_threshold_no_pupil:
  assumes "cv_lib_ok cv" "\<forall>row \<in> set fr. \<forall>p \<in> set row. 50 < uint (cvt_gray_pixel p)"
  shows "detect_pupil cv fr = Inr None"
proof -
  let ?img = "threshold_binary_inv 50 255 (cvt_gray fr)"
  from assms(2) have "\<not> has_foreground ?img"
    by (auto simp: has_foreground_def threshold_binary_inv_def cvt_gray_def)
  then have "find_contours cv ?img = []"
    using assms(1) by (simp add: cv_lib_ok_def contours_ok_def)
  then show ?thesis by (simp add: detect_pupil_def)
qed

text \<open>Detection on a frame whose thresholded image has exactly one foreground pixel.\<close>

lemma cvt_gray_pixel_grey [simp]: "cvt_gray_pixel (BGR v v v) = v"
proof -
  have "unat (cvt_gray_pixel (BGR v v v)) = (unat v * 32768 + 16384) div 32768"
    by (simp add: unat_cvt_gray_pixel)
  also have "\<dots> = unat v" by simp
  finally show ?thesis by (simp add: word_unat_eq_iff)
qed

lemma uint_gt_50: "(50 < uint (v :: sample)) = (50 < unat v)"
proof -
  have "uint v = int (unat v)" by (rule uint_nat)
  then show ?thesis by linarith
qed

lemma fg_pixel_grid:
  "fg_pixel (threshold_binary_inv 50 255 (cvt_gray (grid_frame h w P))) (x, y) \<longleftrightarrow>
   0 \<le> x \<and> x < int w \<and> 0 \<le> y \<and> y < int h \<and> unat (cvt_gray_pixel (P (x, y))) \<le> 50"
proof (cases "0 \<le> x \<and> x < int w \<and> 0 \<le> y \<and> y < int h")
  case True
  then have "nat y < h" "nat x < w" by linarith+
  then have "threshold_binary_inv 50 255 (cvt_gray (grid_frame h w P)) ! nat y ! nat x =
             (if 50 < int (unat (cvt_gray_pixel (P (x, y)))) then 0 else 255)"
    using True by (simp add: threshold_binary_inv_def cvt_gray_def grid_frame_def)
  with True \<open>nat y < h\<close> \<open>nat x < w\<close> show ?thesis
    by (simp add: fg_pixel_def threshold_binary_inv_def cvt_gray_def grid_frame_def uint_gt_50)
next
  case False
  then show ?thesis
    by (auto simp: fg_pixel_def threshold_binary_inv_def cvt_gray_def grid_frame_def)
qed

lemma fg_pixel_has_foreground: "fg_pixel img p \<Longrightarrow> has_foreground img"
proof (cases p)
  case (Pair x y)
  assume "fg_pixel img p"
  with Pair have "img ! nat y \<in> set img" "img ! nat y ! nat x \<in> set (img ! nat y)"
    "img ! nat y ! nat x \<noteq> 0" by (simp_all add: fg_pixel_def)
  then show ?thesis unfolding has_foreground_def by blast
qed

lemma circle_ok_single:
  assumes "circle_ok mec" "c \<noteq> []" "\<forall>q \<in> set c. q = p"
  shows "\<exists>r. mec c = ((of_int (fst p), of_int (snd p)), r)"
proof -
  obtain cx cy r where mec: "mec c = ((cx, cy), r)" by (metis surj_pair)
  have "case mec c of ((cx, cy), r) \<Rightarrow>
          0 \<le> r \<and> (\<exists>q \<in> set c. of_int (fst q) \<le> cx) \<and> (\<exists>q \<in> set c. cx \<le> of_int (fst q)) \<and>
          (\<exists>q \<in> set c. of_int (snd q) \<le> cy) \<and> (\<exists>q \<in> set c. cy \<le> of_int (snd q))"
    using assms(1) assms(2) unfolding circle_ok_def by (elim allE impE)
  then have "(\<exists>q \<in> set c. of_int (fst q) \<le> cx) \<and> (\<exists>q \<in> set c. cx \<le> of_int (fst q)) \<and>
      (\<exists>q \<in> set c. of_int (snd q) \<le> cy) \<and> (\<exists>q \<in> set c. cy \<le> of_int (snd q))"
    by (simp add: mec)
  then have "of_int (fst p) \<le> cx" "cx \<le> of_int (fst p)" "of_int (snd p) \<le> cy" "cy \<le> of_int (snd p)"
    using assms(3) by auto
  then have "cx = of_int (fst p)" "cy = of_int (snd p)" by (simp_all only: order_antisym)
  with mec show ?thesis by blast
qed

lemma detect_pupil_single:
  assumes cv: "cv_lib_ok cv"
    and fg: "fg_pixel (threshold_binary_inv 50 255 (cvt_gray fr)) p"
    and only: "\<And>q. fg_pixel (threshold_binary_inv 50 255 (cvt_gray fr)) q \<Longrightarrow> q = p"
  shows "detect_pupil cv fr = Inr (Some p)"
proof -
  define img where "img = threshold_binary_inv 50 255 (cvt_gray fr)"
  define cnts where "cnts = find_contours cv img"
  have co: "contours_ok (find_contours cv)" and ci: "circle_ok (min_enclosing_circle cv)"
    using cv by (simp_all add: cv_lib_ok_def)
  have ne: "cnts \<noteq> []" using co fg_pixel_has_foreground [OF fg] by (simp add: contours_ok_def cnts_def img_def)
  then obtain c0 cs where cn: "cnts = c0 # cs" by (cases cnts) auto
  define c where "c = foldl (\<lambda>m y. if contour_area m < contour_area y then y else m) c0 cs"
  have mk: "py_max_key contour_area cnts = Inr c" using cn by (simp add: c_def)
  have mem: "c \<in> set cnts" using foldl_max_key_mem [of contour_area c0 cs] cn by (simp add: c_def)
  have "\<forall>c \<in> set cnts. c \<noteq> [] \<and> (\<forall>q \<in> set c. fg_pixel img q)"
    using co by (simp add: contours_ok_def cnts_def)
  from bspec [OF this mem] have cne: "c \<noteq> []" and fgc: "\<forall>q \<in> set c. fg_pixel img q" by simp_all
  have "\<forall>q \<in> set c. q = p" using fgc only by (auto simp: img_def)
  from circle_ok_single [OF ci cne this] obtain r
    where mec: "min_enclosing_circle cv c = ((of_int (fst p), of_int (snd p)), r)" ..
  have "detect_pupil cv fr =
        (case py_max_key contour_area cnts of
           Inl e \<Rightarrow> Inl e
         | Inr c \<Rightarrow> (case min_enclosing_circle cv c of ((x, y), radius) \<Rightarrow> Inr (Some (py_int x, py_int y))))"
    using ne unfolding detect_pupil_def Let_def cnts_def img_def by (simp only: not_False_eq_True if_True)
  also have "\<dots> = Inr (Some p)" by (simp only: mk mec sum.case prod.case py_int_of_int prod.collapse)
  finally show ?thesis .
qed
subsection \<open>Properties of the BlobDetector\<close>

text \<open>
  C10. The fixed-point grey conversion: its 32-bit intermediate sum never overflows, the
  grey value is the weighted sum shifted right by 15 (so at most 255), and a grey pixel
  \<open>(v, v, v)\<close> converts to \<open>v\<close>.
\<close>

theorem cvt_gray_pixel_exact:
  "unat (ucast (px_b p) * 3735 + ucast (px_g p) * 19235 + ucast (px_r p) * 9798 + 16384 :: 32 word) =
     unat (px_b p) * 3735 + unat (px_g p) * 19235 + unat (px_r p) * 9798 + 16384 \<and>
   unat (cvt_gray_pixel p) =
     (unat (px_b p) * 3735 + unat (px_g p) * 19235 + unat (px_r p) * 9798 + 16384) div 32768 \<and>
   cvt_gray_pixel (BGR v v v) = v"
  by (intro conjI gray_sum_no_overflow unat_cvt_gray_pixel cvt_gray_pixel_grey)

text \<open>
  C11. Detection on a uniformly bright frame: when every sample of every pixel is above
  50, the grey frame has no sample at or below the threshold, no contour exists, and
  \<open>detect_pupil\<close> returns \<open>None\<close> (spec section 4.4, failure case).
\<close>

theorem detect_pupil_bright:
  assumes "cv_lib_ok cv"
    and "list_all (list_all (\<lambda>p. 50 < unat (px_b p) \<and> 50 < unat (px_g p) \<and> 50 < unat (px_r p))) fr"
  shows "detect_pupil cv fr = Inr None"
proof -
  have "\<forall>row \<in> set fr. \<forall>p \<in> set row. 50 < uint (cvt_gray_pixel p)"
    using assms(2) bright_pixel_gray by (simp add: list_all_iff)
  with assms(1) show ?thesis by (rule gray_above_threshold_no_pupil)
qed

text \<open>
  C12. The contour chosen is the one of largest area, the first among equals (CPython's
  \<open>max\<close> keeps the first maximum), and the returned point is \<open>int()\<close> of the centre
  of its enclosing circle.
\<close>

theorem detect_pupil_largest:
  assumes "detect_pupil cv fr = Inr (Some (x, y))"
  shows "let cnts = find_contours cv (threshold_binary_inv 50 255 (cvt_gray fr))
         in \<exists>i < length cnts. (\<forall>j < length cnts. contour_area (cnts ! j) \<le> contour_area (cnts ! i)) \<and>
              (\<forall>j < i. contour_area (cnts ! j) < contour_area (cnts ! i)) \<and>
              (case min_enclosing_circle cv (cnts ! i) of ((cx, cy), r) \<Rightarrow> x = py_int cx \<and> y = py_int cy)"
proof -
  obtain c cx cy r where
    c: "py_max_key contour_area (find_contours cv (threshold_binary_inv 50 255 (cvt_gray fr))) = Inr c"
    and mec: "min_enclosing_circle cv c = ((cx, cy), r)" "x = py_int cx" "y = py_int cy"
    using assms by (rule detect_pupil_SomeD)
  from py_max_key_Inr [OF c] mec show ?thesis by (auto simp: Let_def)
qed

text \<open>
  C13. The detected point is a pixel of the frame: for a well-formed \<open>h \<times> w\<close> frame
  and OpenCV routines that meet their contracts, \<open>0 \<le> x < w\<close> and
  \<open>0 \<le> y < h\<close>.
\<close>

theorem detect_pupil_in_frame:
  assumes "cv_lib_ok cv" "is_frame h w fr" "detect_pupil cv fr = Inr (Some (x, y))"
  shows "0 \<le> x \<and> x < int w \<and> 0 \<le> y \<and> y < int h"
proof -
  let ?img = "threshold_binary_inv 50 255 (cvt_gray fr)"
  obtain c cx cy r where c: "py_max_key contour_area (find_contours cv ?img) = Inr c"
    and mec: "min_enclosing_circle cv c = ((cx, cy), r)" "x = py_int cx" "y = py_int cy"
    using assms(3) by (rule detect_pupil_SomeD)
  from py_max_key_Inr [OF c] have "c \<in> set (find_contours cv ?img)" by (auto simp: in_set_conv_nth)
  with assms(1) have ne: "c \<noteq> []" and fg: "\<forall>p \<in> set c. fg_pixel ?img p"
    by (auto simp: cv_lib_ok_def contours_ok_def)
  have "circle_ok (min_enclosing_circle cv)" using assms(1) by (simp add: cv_lib_ok_def)
  then have "case min_enclosing_circle cv c of ((cx, cy), r) \<Rightarrow>
           0 \<le> r \<and> (\<exists>p \<in> set c. of_int (fst p) \<le> cx) \<and> (\<exists>p \<in> set c. cx \<le> of_int (fst p)) \<and>
           (\<exists>p \<in> set c. of_int (snd p) \<le> cy) \<and> (\<exists>p \<in> set c. cy \<le> of_int (snd p))"
    by (rule circle_ok_def [THEN iffD1, rule_format, OF _ ne])
  then have "0 \<le> r \<and> (\<exists>p \<in> set c. of_int (fst p) \<le> cx) \<and> (\<exists>p \<in> set c. cx \<le> of_int (fst p)) \<and>
           (\<exists>p \<in> set c. of_int (snd p) \<le> cy) \<and> (\<exists>p \<in> set c. cy \<le> of_int (snd p))"
    by (simp only: mec(1) prod.case)
  then obtain p q p' q' where
    pq: "p \<in> set c" "q \<in> set c" "p' \<in> set c" "q' \<in> set c" and
    box: "of_int (fst p) \<le> cx" "cx \<le> of_int (fst q)" "of_int (snd p') \<le> cy" "cy \<le> of_int (snd q')"
    by blast
  have P: "\<And>z. z \<in> set c \<Longrightarrow> 0 \<le> fst z \<and> fst z < int w \<and> 0 \<le> snd z \<and> snd z < int h"
  proof -
    fix z assume "z \<in> set c"
    with fg have "fg_pixel ?img (fst z, snd z)" by simp
    with assms(2) show "0 \<le> fst z \<and> fst z < int w \<and> 0 \<le> snd z \<and> snd z < int h"
      by (rule fg_pixel_in_frame)
  qed
  have "0 \<le> fst p" "fst q < int w" "0 \<le> snd p'" "snd q' < int h"
    using P [OF pq(1)] P [OF pq(2)] P [OF pq(3)] P [OF pq(4)] by simp_all
  then have "0 \<le> cx" "\<lfloor>cx\<rfloor> < int w" "0 \<le> cy" "\<lfloor>cy\<rfloor> < int h"
    using box by (simp_all add: floor_less_iff)
  with mec show ?thesis by (simp add: py_int_nonneg)
qed

text \<open>
  C14. \<open>detect_pupil\<close> never raises: the \<open>max\<close> of line 22 is only reached with a
  non-empty contour list, so its \<open>ValueError\<close> cannot occur.
\<close>

theorem detect_pupil_no_error: "\<not> isl (detect_pupil cv fr)"
  using detect_pupil_total [of cv fr] by auto

subsection \<open>Witnesses\<close>

lemma detect_pupil_dark_pixel:
  "detect_pupil cv_test [[BGR 200 200 200, BGR 0 0 0]] = Inr (Some (1, 0))"
  by (simp add: detect_pupil_def cv_test_def cvt_gray_def cvt_gray_pixel_def threshold_binary_inv_def
      has_foreground_def fg_points_def bbox_circle_def contour_area_def py_int_def)

theorem detect_pupil_bright_witness:
  "cv_lib_ok cv_test \<and>
   list_all (list_all (\<lambda>p. 50 < unat (px_b p) \<and> 50 < unat (px_g p) \<and> 50 < unat (px_r p)))
     [[BGR 200 120 60]] \<and>
   detect_pupil cv_test [[BGR 200 120 60]] = Inr None"
proof -
  have b: "list_all (list_all (\<lambda>p. 50 < unat (px_b p) \<and> 50 < unat (px_g p) \<and> 50 < unat (px_r p)))
             [[BGR 200 120 60]]" by simp
  show ?thesis using detect_pupil_bright [OF cv_lib_ok_cv_test b] cv_lib_ok_cv_test b by simp
qed

theorem detect_pupil_largest_witness:
  "detect_pupil cv_test [[BGR 200 200 200, BGR 0 0 0]] = Inr (Some (1, 0)) \<and>
   (let cnts = find_contours cv_test (threshold_binary_inv 50 255 (cvt_gray [[BGR 200 200 200, BGR 0 0 0]]))
    in \<exists>i < length cnts. (\<forall>j < length cnts. contour_area (cnts ! j) \<le> contour_area (cnts ! i)) \<and>
         (\<forall>j < i. contour_area (cnts ! j) < contour_area (cnts ! i)) \<and>
         (case min_enclosing_circle cv_test (cnts ! i) of ((cx, cy), r) \<Rightarrow> 1 = py_int cx \<and> 0 = py_int cy))"
  using detect_pupil_dark_pixel detect_pupil_largest [OF detect_pupil_dark_pixel] by blast

theorem detect_pupil_in_frame_witness:
  "cv_lib_ok cv_test \<and> is_frame 1 2 [[BGR 200 200 200, BGR 0 0 0]] \<and>
   detect_pupil cv_test [[BGR 200 200 200, BGR 0 0 0]] = Inr (Some (1, 0)) \<and>
   0 \<le> (1::int) \<and> (1::int) < int 2 \<and> 0 \<le> (0::int) \<and> (0::int) < int 1"
proof -
  have f: "is_frame 1 2 [[BGR 200 200 200, BGR 0 0 0]]" by (simp add: is_frame_def)
  show ?thesis
    using detect_pupil_in_frame [OF cv_lib_ok_cv_test f detect_pupil_dark_pixel]
      cv_lib_ok_cv_test f detect_pupil_dark_pixel by simp
qed

end
