(* ===== verification/Trail.thy ===== *)
theory Trail
  imports Frame
begin

text \<open>
  The TrailAccumulator: the variables \<open>trail_mode\<close> and \<open>trail_points\<close> of \<open>main\<close>
  (\<open>src/main.py\<close>, lines 45--46), what a detected pupil does to them and draws
  (lines 73--83), and the \<open>t\<close> key toggle (lines 94--97). \<open>cv2.circle\<close> calls are
  recorded as draw commands in call order. The trail's life over a run is a
  deterministic step function on events (a pupil found, a frame without one, a toggle)
  and an inductive reachability relation; its abstract specification says the trail
  holds exactly the points found since trail mode was last switched on.
\<close>

record trail_state =
  trail_mode :: bool
  trail_points :: "(int \<times> int) list"

text \<open>\<open>cv2.circle(img, center, radius, color, thickness)\<close>, colours in BGR order.\<close>

datatype draw_cmd = Circle "int \<times> int" int pixel int

definition red :: pixel where "red = BGR 0 0 255"

definition green :: pixel where "green = BGR 0 255 0"

definition trail_init :: trail_state where
  "trail_init = \<lparr>trail_mode = False, trail_points = []\<rparr>"

text \<open>Lines 74--83: the pupil \<open>(x, y)\<close> was found in this frame.\<close>

definition trail_on_pupil :: "trail_state \<Rightarrow> int \<times> int \<Rightarrow> trail_state \<times> draw_cmd list" where
  "trail_on_pupil st p =
     (if trail_mode st then
        (let pts = trail_points st @ [p]
         in (st\<lparr>trail_points := pts\<rparr>,
             map (\<lambda>pt. Circle pt 3 red (-1)) (butlast pts) @ [Circle p 5 green (-1)]))
      else (st, [Circle p 5 green (-1)]))"

text \<open>Lines 95--97: the \<open>t\<close> key flips the mode and clears the points when it turns off.\<close>

definition toggle_trail :: "trail_state \<Rightarrow> trail_state" where
  "toggle_trail st =
     (let st' = st\<lparr>trail_mode := \<not> trail_mode st\<rparr>
      in if \<not> trail_mode st' then st'\<lparr>trail_points := []\<rparr> else st')"

subsection \<open>Runs of the trail\<close>

datatype trail_event = Found "int \<times> int" | Missed | Toggle

fun trail_step :: "trail_state \<Rightarrow> trail_event \<Rightarrow> trail_state" where
  "trail_step st (Found p) = fst (trail_on_pupil st p)"
| "trail_step st Missed = st"
| "trail_step st Toggle = toggle_trail st"

definition trail_run :: "trail_state \<Rightarrow> trail_event list \<Rightarrow> trail_state" where
  "trail_run st evs = foldl trail_step st evs"

inductive trail_reach :: "trail_state \<Rightarrow> bool" where
  init: "trail_reach trail_init"
| step: "trail_reach st \<Longrightarrow> trail_reach (trail_step st e)"

subsection \<open>Abstract specification\<close>

fun found_points :: "trail_event list \<Rightarrow> (int \<times> int) list" where
  "found_points [] = []"
| "found_points (Found p # evs) = p # found_points evs"
| "found_points (_ # evs) = found_points evs"

text \<open>
  After a sequence of events the mode is on iff there was an odd number of toggles,
  and the trail holds, in order, the points found since the last toggle when the
  mode is on, and nothing when it is off.
\<close>

definition trail_spec :: "trail_event list \<Rightarrow> bool \<times> (int \<times> int) list" where
  "trail_spec evs =
     (let on = odd (length (filter (\<lambda>e. e = Toggle) evs))
      in (on, if on then rev (found_points (takeWhile (\<lambda>e. e \<noteq> Toggle) (rev evs))) else []))"

text \<open>The invariant of the reachable states: trail off goes with no stored points.\<close>

definition trail_inv :: "trail_state \<Rightarrow> bool" where
  "trail_inv st \<longleftrightarrow> (\<not> trail_mode st \<longrightarrow> trail_points st = [])"

subsection \<open>Lemmas\<close>

lemma trail_on_pupil_on:
  "trail_mode st \<Longrightarrow> trail_on_pupil st p =
     (st\<lparr>trail_points := trail_points st @ [p]\<rparr>,
      map (\<lambda>pt. Circle pt 3 red (-1)) (trail_points st) @ [Circle p 5 green (-1)])"
  by (simp add: trail_on_pupil_def)

lemma trail_on_pupil_off:
  "\<not> trail_mode st \<Longrightarrow> trail_on_pupil st p = (st, [Circle p 5 green (-1)])"
  by (simp add: trail_on_pupil_def)

lemma trail_mode_on_pupil [simp]: "trail_mode (fst (trail_on_pupil st p)) = trail_mode st"
  by (simp add: trail_on_pupil_def Let_def)

lemma toggle_trail_simps [simp]:
  "trail_mode (toggle_trail st) = (\<not> trail_mode st)"
  "trail_points (toggle_trail st) = (if trail_mode st then [] else trail_points st)"
  by (simp_all add: toggle_trail_def Let_def)

lemma trail_run_snoc [simp]: "trail_run st (evs @ [e]) = trail_step (trail_run st evs) e"
  by (simp add: trail_run_def)

lemma trail_reach_run: "trail_reach (trail_run trail_init evs)"
proof (induction evs rule: rev_induct)
  case Nil
  then show ?case by (simp add: trail_run_def trail_reach.init)
next
  case (snoc e evs)
  then show ?case by (simp add: trail_reach.step)
qed

lemma trail_step_inv: "trail_inv st \<Longrightarrow> trail_inv (trail_step st e)"
  by (cases e) (auto simp: trail_inv_def trail_on_pupil_def Let_def)

lemma trail_reach_inv: "trail_reach st \<Longrightarrow> trail_inv st"
proof (induction rule: trail_reach.induct)
  case init
  show ?case by (simp add: trail_inv_def trail_init_def)
next
  case (step st e)
  from step.IH show ?case by (rule trail_step_inv)
qed

lemma trail_spec_snoc:
  "trail_spec (evs @ [e]) =
     (case e of
        Toggle \<Rightarrow> (\<not> fst (trail_spec evs), [])
      | Found p \<Rightarrow> (fst (trail_spec evs), if fst (trail_spec evs) then snd (trail_spec evs) @ [p] else [])
      | Missed \<Rightarrow> trail_spec evs)"
  by (cases e) (simp_all add: trail_spec_def Let_def)

lemma trail_spec_off: "\<not> fst (trail_spec evs) \<Longrightarrow> snd (trail_spec evs) = []"
  by (simp add: trail_spec_def Let_def)

subsection \<open>Properties of the TrailAccumulator\<close>

text \<open>
  C15. The trail invariant: in every state the main loop can reach, a trail mode that
  is off goes with an empty list of trail points.
\<close>

theorem trail_off_empty: "trail_reach st \<Longrightarrow> \<not> trail_mode st \<Longrightarrow> trail_points st = []"
  using trail_reach_inv by (auto simp: trail_inv_def)

text \<open>
  C16. Refinement of the trail specification: after any sequence of frames with and
  without a pupil and of \<open>t\<close> presses, trail mode is on iff \<open>t\<close> was pressed an odd
  number of times, and the trail holds exactly the points found since it was last
  switched on, in order (nothing while it is off).
\<close>

theorem trail_run_refines:
  "trail_run trail_init evs = \<lparr>trail_mode = fst (trail_spec evs), trail_points = snd (trail_spec evs)\<rparr>"
proof (induction evs rule: rev_induct)
  case Nil
  then show ?case by (simp add: trail_run_def trail_init_def trail_spec_def)
next
  case (snoc e evs)
  show ?case
  proof (cases e)
    case (Found p)
    with snoc show ?thesis
      by (cases "fst (trail_spec evs)") (simp_all add: trail_spec_snoc trail_on_pupil_def trail_spec_off)
  next
    case Missed
    with snoc show ?thesis by (simp add: trail_spec_snoc)
  next
    case Toggle
    with snoc show ?thesis by (simp add: trail_spec_snoc trail_spec_off)
  qed
qed

text \<open>
  C17. What a frame with a pupil shows: in every reachable state, the markers drawn are
  a small red one at each stored trail point, in order, then a large green one at the
  new point (with trail mode off there are no stored points, so only the green one).
\<close>

theorem trail_on_pupil_draws:
  assumes "trail_reach st" "trail_on_pupil st p = (st', draws)"
  shows "draws = map (\<lambda>q. Circle q 3 red (-1)) (trail_points st) @ [Circle p 5 green (-1)]"
proof (cases "trail_mode st")
  case True
  with assms(2) show ?thesis by (simp add: trail_on_pupil_on)
next
  case False
  with assms(1) have "trail_points st = []" using trail_reach_inv by (auto simp: trail_inv_def)
  with False assms(2) show ?thesis by (simp add: trail_on_pupil_off)
qed

subsection \<open>Witnesses\<close>

theorem trail_off_empty_witness:
  "trail_reach (trail_run trail_init [Toggle, Found (3, 4), Toggle]) \<and>
   \<not> trail_mode (trail_run trail_init [Toggle, Found (3, 4), Toggle]) \<and>
   trail_points (trail_run trail_init [Toggle, Found (3, 4), Toggle]) = []"
proof -
  have m: "\<not> trail_mode (trail_run trail_init [Toggle, Found (3, 4), Toggle])"
    by (simp add: trail_run_def trail_init_def)
  show ?thesis using trail_off_empty [OF trail_reach_run m] trail_reach_run m by simp
qed

theorem trail_on_pupil_draws_witness:
  "trail_reach (trail_run trail_init [Toggle, Found (1, 1)]) \<and>
   trail_on_pupil (trail_run trail_init [Toggle, Found (1, 1)]) (2, 2) =
     (\<lparr>trail_mode = True, trail_points = [(1, 1), (2, 2)]\<rparr>,
      [Circle (1, 1) 3 red (-1), Circle (2, 2) 5 green (-1)]) \<and>
   [Circle (1, 1) 3 red (-1), Circle (2, 2) 5 green (-1)] =
     map (\<lambda>q. Circle q 3 red (-1)) (trail_points (trail_run trail_init [Toggle, Found (1, 1)])) @
     [Circle (2, 2) 5 green (-1)]"
proof -
  have e: "trail_on_pupil (trail_run trail_init [Toggle, Found (1, 1)]) (2, 2) =
     (\<lparr>trail_mode = True, trail_points = [(1, 1), (2, 2)]\<rparr>,
      [Circle (1, 1) 3 red (-1), Circle (2, 2) 5 green (-1)])"
    by (simp add: trail_run_def trail_init_def trail_on_pupil_def)
  show ?thesis using trail_on_pupil_draws [OF trail_reach_run e] trail_reach_run e by simp
qed

end
