(* ===== verification/Driver.thy ===== *)
theory Driver
  imports DelayBuffer Detect Trail
begin

unbundle bit_operations_syntax

text \<open>
  The PipelineDriver: \<open>main\<close> (\<open>src/main.py\<close>, lines 30--100). The settings are a
  record; the capture (\<open>cv2.VideoCapture\<close>) is the list of frames it will deliver
  with a read position, \<open>cap.read()\<close> failing past the end and
  \<open>cap.set(CAP_PROP_POS_FRAMES, 0)\<close> rewinding. What the user does on each iteration
  that reads a frame (the three trackbar positions, the screen size
  \<open>pyautogui.size()\<close> reports, the code \<open>cv2.waitKey\<close> returns) is a record of
  inputs, and what the iteration does to the outside world (\<open>pyautogui.moveTo\<close>,
  \<open>cv2.imshow\<close> with the markers drawn on the frame, \<open>cv2.waitKey\<close>) is a list of
  effects in call order. The pointer position is part of the driver's state: the
  program's only way to change it is \<open>pyautogui.moveTo\<close>, whose fail-safe check
  (\<open>pointer_run\<close>) can raise \<open>FailSafeException\<close> inside an iteration. One
  iteration is \<open>loop_body\<close>; the \<open>while True\<close> loop is
  \<open>main_loop\<close>, a \<open>partial_function (option)\<close>: \<open>None\<close> is a run that never
  returns, which happens when a looping capture delivers no frame at all.
\<close>

record config =
  test_mode :: bool
  input_path :: "string option"
  loop_video :: bool

record capture =
  cap_frames :: "frame list"
  cap_pos :: nat
  cap_fps :: rat

record ui_input =
  ui_delay :: int
  ui_opacity :: int
  ui_speed :: int
  ui_screen :: "int \<times> int"
  ui_key :: int

datatype effect = MoveTo int int | ImShow frame "draw_cmd list" | WaitKey int
  | NamedWindow | CreateTrackbar string int int | Release | DestroyAllWindows

datatype outcome = Quit | StreamEnd | Crash py_error | InputEnd

text \<open>
  The state the loop carries: the buffer, the trail, the capture, and the pointer
  position \<open>pyautogui\<close> keeps (the library's state, which the fail-safe reads).
\<close>

record drv_state =
  drv_buffer :: "frame list"
  drv_trail :: trail_state
  drv_cap :: capture
  drv_pointer :: "int \<times> int"

subsection \<open>Capture and source selection (lines 36--43, 55--61)\<close>

definition cap_read :: "capture \<Rightarrow> (frame \<times> capture) option" where
  "cap_read c =
     (if cap_pos c < length (cap_frames c)
      then Some (cap_frames c ! cap_pos c, c\<lparr>cap_pos := Suc (cap_pos c)\<rparr>) else None)"

definition cap_rewind :: "capture \<Rightarrow> capture" where
  "cap_rewind c = c\<lparr>cap_pos := 0\<rparr>"

text \<open>
  Python's \<open>str.isspace\<close> on a character of a string, and \<open>str.strip()\<close>. A
  string of the model is a list of code points below 256 (Latin-1); in that range
  \<open>str.isspace\<close> holds of 9--13, 28--32, U+0085 and U+00A0.
\<close>

definition py_isspace :: "char \<Rightarrow> bool" where
  "py_isspace ch \<longleftrightarrow>
     (let n = of_char ch :: nat in n = 32 \<or> (9 \<le> n \<and> n \<le> 13) \<or> (28 \<le> n \<and> n \<le> 31) \<or> n = 133 \<or> n = 160)"

definition py_strip :: "string \<Rightarrow> string" where
  "py_strip s = rev (dropWhile py_isspace (rev (dropWhile py_isspace s)))"

text \<open>
  Lines 37--41: a non-blank path opens the file (looping as configured), anything else
  opens camera 0 and switches looping off. Both captures are inputs of the model.
\<close>

definition open_source :: "config \<Rightarrow> capture \<Rightarrow> capture \<Rightarrow> capture \<times> bool" where
  "open_source cfg file_cap cam_cap =
     (case input_path cfg of
        Some p \<Rightarrow> if p \<noteq> [] \<and> py_strip p \<noteq> [] then (file_cap, loop_video cfg) else (cam_cap, False)
      | None \<Rightarrow> (cam_cap, False))"

text \<open>Line 43: \<open>cap.get(cv2.CAP_PROP_FPS) or 30\<close>.\<close>

definition capture_fps :: "capture \<Rightarrow> rat" where
  "capture_fps c = (if cap_fps c = 0 then 30 else cap_fps c)"

subsection \<open>One iteration (lines 63--97)\<close>

text \<open>Lines 85--87: the pointer target, each coordinate modulo the screen size.\<close>

definition pointer_effect :: "config \<Rightarrow> ui_input \<Rightarrow> int \<times> int \<Rightarrow> py_error + effect list" where
  "pointer_effect cfg ui p =
     (if \<not> test_mode cfg then
        (case py_mod (fst p) (fst (ui_screen ui)) of
           Inl e \<Rightarrow> Inl e
         | Inr mx \<Rightarrow> (case py_mod (snd p) (snd (ui_screen ui)) of
                        Inl e \<Rightarrow> Inl e
                      | Inr my \<Rightarrow> Inr [MoveTo mx my]))
      else Inr [])"

text \<open>Lines 73--87: what a detection (or its absence) does.\<close>

definition on_pupil ::
  "config \<Rightarrow> ui_input \<Rightarrow> trail_state \<Rightarrow> (int \<times> int) option \<Rightarrow>
   py_error + (trail_state \<times> draw_cmd list \<times> effect list)" where
  "on_pupil cfg ui ts pupil =
     (case pupil of
        None \<Rightarrow> Inr (ts, [], [])
      | Some p \<Rightarrow>
          (case trail_on_pupil ts p of
             (ts', draws) \<Rightarrow>
               (case pointer_effect cfg ui p of
                  Inl e \<Rightarrow> Inl e
                | Inr moves \<Rightarrow> Inr (ts', draws, moves))))"

text \<open>Lines 66--67: the playback speed from the speed trackbar.\<close>

definition playback_speed :: "int \<Rightarrow> rat" where
  "playback_speed speed_slider = of_int (max 1 speed_slider) / 10"

text \<open>Line 91: the delay of \<open>cv2.waitKey\<close> and the masked key code.\<close>

definition wait_ms :: "rat \<Rightarrow> int \<Rightarrow> int" where
  "wait_ms fps speed_slider = py_int ((1000 / fps) / playback_speed speed_slider)"

definition key_code :: "int \<Rightarrow> int" where
  "key_code k = k AND 255"

text \<open>Lines 92--97: ESC quits, \<open>t\<close> toggles the trail mode.\<close>

definition handle_key :: "trail_state \<Rightarrow> int \<Rightarrow> trail_state \<times> bool" where
  "handle_key ts key =
     (if key = 27 then (ts, True)
      else if key = of_char (CHR ''t'') then (toggle_trail ts, False)
      else (ts, False))"

text \<open>
  Line 87 on the library's side: \<open>pyautogui.moveTo\<close> first runs the fail-safe check
  (\<open>FAILSAFE = True\<close> by default) and raises \<open>FailSafeException\<close> when the pointer is
  at the corner \<open>(0, 0)\<close>, the corner every release of the library checks; otherwise
  the pointer moves. \<open>pointer_run\<close> runs an iteration's moves from the current
  position.
\<close>

fun pointer_run :: "int \<times> int \<Rightarrow> effect list \<Rightarrow> py_error + int \<times> int" where
  "pointer_run p [] = Inr p"
| "pointer_run p (MoveTo x y # es) = (if p = (0, 0) then Inl FailSafeException else pointer_run (x, y) es)"
| "pointer_run p (e # es) = pointer_run p es"

text \<open>Lines 63--97: one iteration of the loop after a frame was read.\<close>

definition loop_body ::
  "config \<Rightarrow> cv_lib \<Rightarrow> rat \<Rightarrow> ui_input \<Rightarrow> frame \<Rightarrow> drv_state \<Rightarrow>
   py_error + (drv_state \<times> effect list \<times> bool)" where
  "loop_body cfg cv fps ui frame st =
     (let delay = max 1 (ui_delay ui);
          alpha = of_int (ui_opacity ui) / 100
      in case process_frame frame (drv_buffer st) delay alpha of
           Inl e \<Rightarrow> Inl e
         | Inr (buffer', motion_frame) \<Rightarrow>
             (case detect_pupil cv motion_frame of
                Inl e \<Rightarrow> Inl e
              | Inr pupil \<Rightarrow>
                  (case on_pupil cfg ui (drv_trail st) pupil of
                     Inl e \<Rightarrow> Inl e
                   | Inr (ts', draws, moves) \<Rightarrow>
                       (case pointer_run (drv_pointer st) moves of
                          Inl e \<Rightarrow> Inl e
                        | Inr ptr \<Rightarrow>
                            (case handle_key ts' (key_code (ui_key ui)) of
                               (ts'', quit) \<Rightarrow>
                                 Inr (st\<lparr>drv_buffer := buffer', drv_trail := ts'', drv_pointer := ptr\<rparr>,
                                      moves @ [ImShow motion_frame draws, WaitKey (wait_ms fps (ui_speed ui))],
                                      quit))))))"

subsection \<open>The loop (lines 54--97) and \<open>main\<close>\<close>

partial_function (option) main_loop ::
  "config \<Rightarrow> cv_lib \<Rightarrow> rat \<Rightarrow> bool \<Rightarrow> ui_input list \<Rightarrow> drv_state \<Rightarrow>
   (drv_state \<times> effect list \<times> outcome) option" where
  "main_loop cfg cv fps loop uis st =
     (case uis of
        [] \<Rightarrow> Some (st, [], InputEnd)
      | ui # uis' \<Rightarrow>
          (case cap_read (drv_cap st) of
             None \<Rightarrow>
               if loop then main_loop cfg cv fps loop uis (st\<lparr>drv_cap := cap_rewind (drv_cap st)\<rparr>)
               else Some (st, [], StreamEnd)
           | Some (frame, cap') \<Rightarrow>
               (case loop_body cfg cv fps ui frame (st\<lparr>drv_cap := cap'\<rparr>) of
                  Inl e \<Rightarrow> Some (st\<lparr>drv_cap := cap'\<rparr>, [], Crash e)
                | Inr (st', effs, quit) \<Rightarrow>
                    if quit then Some (st', effs, Quit)
                    else Option.bind (main_loop cfg cv fps loop uis' st')
                           (\<lambda>(st'', effs', out). Some (st'', effs @ effs', out)))))"

text \<open>The state before the loop (lines 44--46); the pointer is wherever the user left it.\<close>

definition drv_init :: "capture \<Rightarrow> int \<times> int \<Rightarrow> drv_state" where
  "drv_init c ptr = \<lparr>drv_buffer = [], drv_trail = trail_init, drv_cap = c, drv_pointer = ptr\<rparr>"

text \<open>
  Lines 49--52 open the window and its three trackbars before the loop; lines 99--100
  release the capture and close the windows after it, which the program reaches only
  by a \<open>break\<close> (ESC, or the end of a stream that does not loop): an exception
  propagates out of \<open>main\<close> without running them.
\<close>

text \<open>
  Lines 27--28: the callback given to the three trackbars; it does nothing, so the
  trackbars change the program only through the positions the loop reads.
\<close>

definition nothing :: "int \<Rightarrow> unit" where
  "nothing x = ()"

definition setup_effects :: "effect list" where
  "setup_effects = [NamedWindow, CreateTrackbar ''Delay'' 3 30, CreateTrackbar ''Opacity'' 50 100,
                    CreateTrackbar ''Speed'' 10 50]"

definition cleanup_effects :: "outcome \<Rightarrow> effect list" where
  "cleanup_effects out =
     (case out of Quit \<Rightarrow> [Release, DestroyAllWindows] | StreamEnd \<Rightarrow> [Release, DestroyAllWindows]
      | Crash e \<Rightarrow> [] | InputEnd \<Rightarrow> [])"

definition main :: "config \<Rightarrow> cv_lib \<Rightarrow> capture \<Rightarrow> capture \<Rightarrow> int \<times> int \<Rightarrow> ui_input list \<Rightarrow>
                     (drv_state \<times> effect list \<times> outcome) option" where
  "main cfg cv file_cap cam_cap ptr uis =
     (case open_source cfg file_cap cam_cap of
        (cap, loop) \<Rightarrow>
          map_option (\<lambda>(st, effs, out). (st, setup_effects @ effs @ cleanup_effects out, out))
            (main_loop cfg cv (capture_fps cap) loop uis (drv_init cap ptr)))"

definition default_config :: config where
  "default_config = \<lparr>test_mode = False, input_path = Some ''test.mov'', loop_video = True\<rparr>"

text \<open>
  The precondition of crash freedom: in test mode the pointer is never moved, otherwise
  every \<open>pyautogui.size()\<close> the loop reads is a positive screen size.
\<close>

definition screens_ok :: "config \<Rightarrow> ui_input list \<Rightarrow> bool" where
  "screens_ok cfg uis \<longleftrightarrow> test_mode cfg \<or> list_all (\<lambda>ui. 0 < fst (ui_screen ui) \<and> 0 < snd (ui_screen ui)) uis"

text \<open>
  Inputs of one iteration as the program starts: the trackbar positions of lines 50--52
  (delay 3, opacity 50, speed 10), an \<open>800 \<times> 600\<close> screen, and no key pressed
  (\<open>cv2.waitKey\<close> returns \<open>-1\<close>). A one-frame clip of a single black pixel at 30 fps.
\<close>

definition ui_default :: ui_input where
  "ui_default = \<lparr>ui_delay = 3, ui_opacity = 50, ui_speed = 10, ui_screen = (800, 600), ui_key = -1\<rparr>"

definition dark_clip :: capture where
  "dark_clip = \<lparr>cap_frames = [[[BGR 0 0 0]]], cap_pos = 0, cap_fps = 30\<rparr>"

text \<open>
  What a run does to the buffer and the capture, for the loop's invariant: the buffer
  grows by the inverted frames read, at most one per input, and the clip is never
  changed (only the read position moves).
\<close>

definition buffer_grown :: "drv_state \<Rightarrow> nat \<Rightarrow> drv_state \<Rightarrow> bool" where
  "buffer_grown st n st' \<longleftrightarrow>
     (\<exists>fs. drv_buffer st' = drv_buffer st @ map invert_frame fs \<and>
           set fs \<subseteq> set (cap_frames (drv_cap st)) \<and> length fs \<le> n) \<and>
     cap_frames (drv_cap st') = cap_frames (drv_cap st)"

text \<open>The effects one iteration of the loop can have.\<close>

definition loop_effect :: "effect \<Rightarrow> bool" where
  "loop_effect e \<longleftrightarrow>
     (case e of MoveTo x y \<Rightarrow> True | ImShow m ds \<Rightarrow> True | WaitKey n \<Rightarrow> True | _ \<Rightarrow> False)"

subsection \<open>Lemmas\<close>

lemma cap_read_frames: "cap_read c = Some (f, c') \<Longrightarrow> cap_frames c' = cap_frames c"
  by (auto simp: cap_read_def split: if_splits)

lemma cap_read_empty: "cap_frames c = [] \<Longrightarrow> cap_read c = None"
  by (simp add: cap_read_def)

lemma cap_read_rewind: "cap_frames c \<noteq> [] \<Longrightarrow> \<exists>f c'. cap_read (cap_rewind c) = Some (f, c')"
  by (simp add: cap_read_def cap_rewind_def)

lemma pointer_effect_total:
  "test_mode cfg \<or> (0 < fst (ui_screen ui) \<and> 0 < snd (ui_screen ui)) \<Longrightarrow>
   \<exists>moves. pointer_effect cfg ui p = Inr moves \<and> length moves \<le> 1"
  by (auto simp: pointer_effect_def py_mod_def)

lemma pointer_effect_length: "pointer_effect cfg ui p = Inr moves \<Longrightarrow> length moves \<le> 1"
  by (auto simp: pointer_effect_def split: if_splits sum.splits)

lemma on_pupil_moves: "on_pupil cfg ui ts pupil = Inr (ts', draws, moves) \<Longrightarrow> length moves \<le> 1"
  by (auto simp: on_pupil_def split: option.splits prod.splits sum.splits dest: pointer_effect_length)

lemma on_pupil_total:
  assumes "test_mode cfg \<or> (0 < fst (ui_screen ui) \<and> 0 < snd (ui_screen ui))"
  shows "\<exists>r. on_pupil cfg ui ts pupil = Inr r"
proof (cases pupil)
  case None
  then show ?thesis by (simp add: on_pupil_def)
next
  case (Some p)
  obtain moves where "pointer_effect cfg ui p = Inr moves" using pointer_effect_total [OF assms] by blast
  with Some show ?thesis by (simp add: on_pupil_def split: prod.split)
qed

lemma loop_body_InrE:
  assumes "loop_body cfg cv fps ui frame st = Inr (st', effs, q)"
  obtains buf' motion pupil ts' draws moves ptr where
    "process_frame frame (drv_buffer st) (max 1 (ui_delay ui)) (of_int (ui_opacity ui) / 100) = Inr (buf', motion)"
    "detect_pupil cv motion = Inr pupil"
    "on_pupil cfg ui (drv_trail st) pupil = Inr (ts', draws, moves)"
    "pointer_run (drv_pointer st) moves = Inr ptr"
    "st' = st\<lparr>drv_buffer := buf', drv_trail := fst (handle_key ts' (key_code (ui_key ui))), drv_pointer := ptr\<rparr>"
    "effs = moves @ [ImShow motion draws, WaitKey (wait_ms fps (ui_speed ui))]"
    "q = snd (handle_key ts' (key_code (ui_key ui)))"
  using assms by (auto simp: loop_body_def Let_def split: sum.splits prod.splits)

lemma loop_body_cap: "loop_body cfg cv fps ui frame st = Inr (st', effs, q) \<Longrightarrow> drv_cap st' = drv_cap st"
  by (erule loop_body_InrE) simp

text \<open>The fail-safe is the only exception \<open>pointer_run\<close> raises.\<close>

lemma pointer_run_Inl: "pointer_run p es = Inl e \<Longrightarrow> e = FailSafeException"
  by (induction p es rule: pointer_run.induct) (auto split: if_splits)

lemma on_pupil_test_mode:
  "test_mode cfg \<Longrightarrow> on_pupil cfg ui ts pupil = Inr (ts', draws, moves) \<Longrightarrow> moves = []"
  by (cases pupil) (auto simp: on_pupil_def pointer_effect_def split: prod.splits)

text \<open>
  On a frame of the buffer's size and a positive screen size (or in test mode), an
  iteration raises only the fail-safe exception, and never in test mode.
\<close>

lemma loop_body_InlD:
  assumes lb: "loop_body cfg cv fps ui frame st = Inl e"
    and B: "list_all (is_frame h w) (drv_buffer st)" and F: "is_frame h w frame"
    and S: "test_mode cfg \<or> (0 < fst (ui_screen ui) \<and> 0 < snd (ui_screen ui))"
  shows "e = FailSafeException \<and> \<not> test_mode cfg"
proof -
  have "0 \<le> max 1 (ui_delay ui)" by simp
  from process_frame_total [OF B F this] obtain buf' motion where pf:
    "process_frame frame (drv_buffer st) (max 1 (ui_delay ui)) (of_int (ui_opacity ui) / 100) = Inr (buf', motion)"
    by blast
  obtain pupil where dp: "detect_pupil cv motion = Inr pupil" using detect_pupil_total by blast
  from on_pupil_total [OF S] obtain r where "on_pupil cfg ui (drv_trail st) pupil = Inr r" by blast
  then obtain ts' draws moves where op: "on_pupil cfg ui (drv_trail st) pupil = Inr (ts', draws, moves)"
    by (cases r rule: prod_cases3) auto
  have pr: "pointer_run (drv_pointer st) moves = Inl e"
  proof (cases "pointer_run (drv_pointer st) moves")
    case (Inr ptr)
    obtain ts'' quit where hk: "handle_key ts' (key_code (ui_key ui)) = (ts'', quit)" by (rule prod.exhaust)
    have "\<exists>x. loop_body cfg cv fps ui frame st = Inr x"
      using pf dp op Inr hk by (simp only: loop_body_def Let_def sum.case prod.case) blast
    with lb show ?thesis by simp
  qed (use lb pf dp op in \<open>simp add: loop_body_def Let_def\<close>)
  then have "e = FailSafeException" by (rule pointer_run_Inl)
  moreover have "\<not> test_mode cfg"
  proof
    assume "test_mode cfg"
    then have "moves = []" using op by (rule on_pupil_test_mode)
    with pr show False by simp
  qed
  ultimately show ?thesis ..
qed

lemma loop_body_buffer:
  "loop_body cfg cv fps ui frame st = Inr (st', effs, q) \<Longrightarrow>
   drv_buffer st' = drv_buffer st @ [invert_frame frame]"
  by (erule loop_body_InrE) (auto simp: process_frame_def Let_def split: if_splits sum.splits)

lemma cap_read_mem: "cap_read c = Some (f, c') \<Longrightarrow> f \<in> set (cap_frames c)"
  by (auto simp: cap_read_def split: if_splits)

lemma py_strip_Nil_iff: "py_strip s = [] \<longleftrightarrow> list_all py_isspace s"
proof -
  have "(\<forall>x\<in>set (dropWhile py_isspace s). py_isspace x) \<longleftrightarrow> list_all py_isspace s"
    by (induction s) auto
  then show ?thesis by (simp add: py_strip_def dropWhile_eq_Nil_conv)
qed

text \<open>The \<open>int()\<close> of line 91 is the floor of one quotient, never negative.\<close>

lemma wait_ms_quotient:
  fixes fps :: rat
  assumes "0 < fps"
  shows "(1000 / fps) / (of_int (max 1 s) / 10) = 10000 / (fps * of_int (max 1 s))"
    and "0 \<le> 10000 / (fps * of_int (max 1 s))"
proof -
  have m: "(0::rat) < of_int (max 1 s)" by simp
  with assms show "(1000 / fps) / (of_int (max 1 s) / 10) = 10000 / (fps * of_int (max 1 s))"
    by (simp add: field_simps)
  from assms m show "0 \<le> 10000 / (fps * of_int (max 1 s))" by simp
qed

lemma wait_ms_of_int:
  assumes "0 < n"
  shows "wait_ms (of_int n) s = 10000 div (n * max 1 s)"
proof -
  have q: "(10000 :: rat) / (of_int n * of_int (max 1 s)) = of_int 10000 / of_int (n * max 1 s)"
    by simp
  have "wait_ms (of_int n) s = \<lfloor>(10000 :: rat) / (of_int n * of_int (max 1 s))\<rfloor>"
    using wait_ms_quotient [of "of_int n" s] assms by (simp add: wait_ms_def playback_speed_def py_int_nonneg)
  also have "\<dots> = 10000 div (n * max 1 s)" by (simp only: q floor_divide_of_int_eq)
  finally show ?thesis .
qed

text \<open>\<open>& 0xFF\<close> on a Python int is the remainder modulo 256.\<close>

lemma and_255_eq_mod: "k AND (255::int) = k mod 256"
proof -
  have "(255::int) = mask 8" by (simp add: mask_eq_exp_minus_1)
  then have "k AND 255 = take_bit 8 k" by (simp add: take_bit_eq_mask)
  then show ?thesis by (simp add: take_bit_eq_mod)
qed

subsection \<open>Unfolding the loop\<close>

lemma main_loop_nil: "main_loop cfg cv fps loop [] st = Some (st, [], InputEnd)"
  by (simp add: main_loop.simps [of cfg cv fps loop "[]" st])

lemma main_loop_Cons:
  "main_loop cfg cv fps loop (ui # uis') st =
     (case cap_read (drv_cap st) of
        None \<Rightarrow> if loop then main_loop cfg cv fps loop (ui # uis') (st\<lparr>drv_cap := cap_rewind (drv_cap st)\<rparr>)
               else Some (st, [], StreamEnd)
      | Some (frame, cap') \<Rightarrow>
          (case loop_body cfg cv fps ui frame (st\<lparr>drv_cap := cap'\<rparr>) of
             Inl e \<Rightarrow> Some (st\<lparr>drv_cap := cap'\<rparr>, [], Crash e)
           | Inr (st', effs, quit) \<Rightarrow>
               if quit then Some (st', effs, Quit)
               else Option.bind (main_loop cfg cv fps loop uis' st')
                      (\<lambda>(st'', effs', out). Some (st'', effs @ effs', out))))"
  by (simp add: main_loop.simps [of cfg cv fps loop "ui # uis'" st])

lemma main_loop_read:
  assumes "cap_read (drv_cap st) = Some (frame, cap')"
  shows "main_loop cfg cv fps loop (ui # uis') st =
     (case loop_body cfg cv fps ui frame (st\<lparr>drv_cap := cap'\<rparr>) of
        Inl e \<Rightarrow> Some (st\<lparr>drv_cap := cap'\<rparr>, [], Crash e)
      | Inr (st', effs, quit) \<Rightarrow>
          if quit then Some (st', effs, Quit)
          else Option.bind (main_loop cfg cv fps loop uis' st')
                 (\<lambda>(st'', effs', out). Some (st'', effs @ effs', out)))"
  using assms by (simp add: main_loop_Cons)

lemma main_loop_no_read:
  assumes "cap_read (drv_cap st) = None"
  shows "main_loop cfg cv fps loop (ui # uis') st =
     (if loop then main_loop cfg cv fps loop (ui # uis') (st\<lparr>drv_cap := cap_rewind (drv_cap st)\<rparr>)
      else Some (st, [], StreamEnd))"
  using assms by (simp add: main_loop_Cons)

lemma main_loop_read_returns:
  assumes rd: "cap_read (drv_cap st) = Some (frame, cap')"
    and IH: "\<And>st'. cap_frames (drv_cap st') = cap_frames (drv_cap st) \<Longrightarrow>
                     \<exists>r. main_loop cfg cv fps loop uis' st' = Some r"
  shows "\<exists>r. main_loop cfg cv fps loop (ui # uis') st = Some r"
proof (cases "loop_body cfg cv fps ui frame (st\<lparr>drv_cap := cap'\<rparr>)")
  case (Inl e)
  then show ?thesis by (simp add: main_loop_read [OF rd])
next
  case (Inr x)
  obtain st' effs q where x: "x = (st', effs, q)" by (cases x rule: prod_cases3)
  with Inr have "drv_cap st' = cap'" using loop_body_cap by fastforce
  then have "cap_frames (drv_cap st') = cap_frames (drv_cap st)" using cap_read_frames [OF rd] by simp
  then obtain r where "main_loop cfg cv fps loop uis' st' = Some r" using IH by blast
  then show ?thesis using Inr x by (cases r) (simp add: main_loop_read [OF rd])
qed

text \<open>
  Fixed-point induction over the runs of the loop that return, one case per branch of
  the loop body.
\<close>

lemma main_loop_run_induct [consumes 1, case_names Nil End Rewind Crash Quit Continue]:
  assumes run: "main_loop cfg cv fps loop uis st = Some r"
    and Nil: "\<And>st. P [] st (st, [], InputEnd)"
    and End: "\<And>ui uis' st. cap_read (drv_cap st) = None \<Longrightarrow> \<not> loop \<Longrightarrow> P (ui # uis') st (st, [], StreamEnd)"
    and Rewind: "\<And>ui uis' st r. cap_read (drv_cap st) = None \<Longrightarrow> loop \<Longrightarrow>
                   P (ui # uis') (st\<lparr>drv_cap := cap_rewind (drv_cap st)\<rparr>) r \<Longrightarrow> P (ui # uis') st r"
    and Crash: "\<And>ui uis' st frame cap' e. cap_read (drv_cap st) = Some (frame, cap') \<Longrightarrow>
                   loop_body cfg cv fps ui frame (st\<lparr>drv_cap := cap'\<rparr>) = Inl e \<Longrightarrow>
                   P (ui # uis') st (st\<lparr>drv_cap := cap'\<rparr>, [], Crash e)"
    and Quit: "\<And>ui uis' st frame cap' st' effs. cap_read (drv_cap st) = Some (frame, cap') \<Longrightarrow>
                   loop_body cfg cv fps ui frame (st\<lparr>drv_cap := cap'\<rparr>) = Inr (st', effs, True) \<Longrightarrow>
                   P (ui # uis') st (st', effs, Quit)"
    and Continue: "\<And>ui uis' st frame cap' st' effs st'' effs' out. cap_read (drv_cap st) = Some (frame, cap') \<Longrightarrow>
                   loop_body cfg cv fps ui frame (st\<lparr>drv_cap := cap'\<rparr>) = Inr (st', effs, False) \<Longrightarrow>
                   P uis' st' (st'', effs', out) \<Longrightarrow> P (ui # uis') st (st'', effs @ effs', out)"
  shows "P uis st r"
proof -
  have "cfg = cfg \<longrightarrow> cv = cv \<longrightarrow> fps = fps \<longrightarrow> loop = loop \<longrightarrow> P uis st r"
  apply (rule main_loop.raw_induct [where P = "\<lambda>cfg' cv' fps' loop' uis st r.
            cfg' = cfg \<longrightarrow> cv' = cv \<longrightarrow> fps' = fps \<longrightarrow> loop' = loop \<longrightarrow> P uis st r", OF _ run])
  subgoal premises p0 for f cfg' cv' fps' loop' uis st r
  proof (intro impI)
    assume eqs: "cfg' = cfg" "cv' = cv" "fps' = fps" "loop' = loop"
    note p = p0 [unfolded eqs]
    have IH: "f cfg cv fps loop uis' st' = Some r' \<Longrightarrow> P uis' st' r'" for uis' st' r'
      using p(1) [of cfg cv fps loop uis' st' r'] by simp
    show "P uis st r"
  proof (cases uis)
    case Nil
    with p(2) show ?thesis by (auto intro: assms(2))
  next
    case (Cons ui uis')
    show ?thesis
    proof (cases "cap_read (drv_cap st)")
      case None
      show ?thesis
      proof (cases loop)
        case True
        with p(2) Cons None have "f cfg cv fps loop uis (st\<lparr>drv_cap := cap_rewind (drv_cap st)\<rparr>) = Some r"
          by simp
        from IH [OF this] None True Cons show ?thesis by (auto intro: Rewind)
      next
        case False
        with p(2) Cons None show ?thesis by (auto intro: End)
      qed
    next
      case (Some a)
      then obtain frame cap' where rd: "cap_read (drv_cap st) = Some (frame, cap')" by (cases a) auto
      show ?thesis
      proof (cases "loop_body cfg cv fps ui frame (st\<lparr>drv_cap := cap'\<rparr>)")
        case (Inl e)
        with p(2) Cons rd show ?thesis by (auto intro: Crash)
      next
        case (Inr x)
        obtain st' effs q where x: "x = (st', effs, q)" by (cases x rule: prod_cases3)
        show ?thesis
        proof (cases q)
          case True
          with p(2) Cons rd Inr x show ?thesis by (auto intro: Quit)
        next
          case False
          with p(2) Cons rd Inr x obtain st'' effs' out where
            r': "f cfg cv fps loop uis' st' = Some (st'', effs', out)" and r: "r = (st'', effs @ effs', out)"
            by (cases "f cfg cv fps loop uis' st'") (auto split: prod.splits)
          from IH [OF r'] have "P uis' st' (st'', effs', out)" .
          with rd Inr x False r Cons show ?thesis by (auto intro: Continue)
        qed
      qed
    qed
  qed
  qed
  done
  then show ?thesis by simp
qed


lemma on_pupil_moves_MoveTo:
  "on_pupil cfg ui ts pupil = Inr (ts', draws, moves) \<Longrightarrow> \<forall>e \<in> set moves. \<exists>x y. e = MoveTo x y"
  by (auto simp: on_pupil_def pointer_effect_def split: option.splits prod.splits sum.splits if_splits)

lemma loop_body_effect_kinds:
  "loop_body cfg cv fps ui frame st = Inr (st', effs, q) \<Longrightarrow> list_all loop_effect effs"
  by (erule loop_body_InrE) (auto simp: loop_effect_def list_all_iff dest!: on_pupil_moves_MoveTo)

lemma main_loop_effect_kinds:
  "main_loop cfg cv fps loop uis st = Some r \<Longrightarrow> list_all loop_effect (fst (snd r))"
  by (induction rule: main_loop_run_induct) (auto dest: loop_body_effect_kinds)


lemma buffer_grown_refl: "buffer_grown st n st"
  by (auto simp: buffer_grown_def intro: exI [of _ "[]"])

lemma buffer_grown_cap_update:
  "cap_frames c = cap_frames (drv_cap st) \<Longrightarrow> buffer_grown (st\<lparr>drv_cap := c\<rparr>) n st' = buffer_grown st n st'"
  by (simp add: buffer_grown_def)

lemma buffer_grown_read:
  assumes rd: "cap_read (drv_cap st) = Some (frame, cap')"
    and lb: "loop_body cfg cv fps ui frame (st\<lparr>drv_cap := cap'\<rparr>) = Inr (st1, effs, q)"
    and g: "buffer_grown st1 n st'"
  shows "buffer_grown st (Suc n) st'"
proof -
  have b1: "drv_buffer st1 = drv_buffer st @ [invert_frame frame]" using loop_body_buffer [OF lb] by simp
  have c1: "cap_frames (drv_cap st1) = cap_frames (drv_cap st)"
    using loop_body_cap [OF lb] cap_read_frames [OF rd] by simp
  from g obtain fs where fs: "drv_buffer st' = drv_buffer st1 @ map invert_frame fs"
    "set fs \<subseteq> set (cap_frames (drv_cap st1))" "length fs \<le> n"
    and c: "cap_frames (drv_cap st') = cap_frames (drv_cap st1)" by (auto simp: buffer_grown_def)
  have "drv_buffer st' = drv_buffer st @ map invert_frame (frame # fs)" using fs(1) b1 by simp
  moreover have "set (frame # fs) \<subseteq> set (cap_frames (drv_cap st))" using fs(2) c1 cap_read_mem [OF rd] by simp
  ultimately show ?thesis using fs(3) c c1 unfolding buffer_grown_def by (intro conjI exI [of _ "frame # fs"]) simp_all
qed

subsection \<open>Concrete iterations\<close>

text \<open>
  The first iteration on the dark clip with ESC pressed: the one black pixel is the
  pupil at \<open>(0, 0)\<close>, the pointer moves there, the frame is shown with the green
  marker, and the loop quits.
\<close>

lemma dark_detect: "detect_pupil cv_test [[BGR 0 0 0]] = Inr (Some (0, 0))"
  by (simp add: detect_pupil_def cv_test_def cvt_gray_def cvt_gray_pixel_def threshold_binary_inv_def
      has_foreground_def fg_points_def bbox_circle_def contour_area_def py_int_def)

lemma wait_ms_30_10: "wait_ms 30 10 = 33"
  using wait_ms_of_int [of 30 10] by simp

lemma dark_loop_body:
  "loop_body default_config cv_test 30 (ui_default\<lparr>ui_key := 27\<rparr>) [[BGR 0 0 0]]
     (drv_init dark_clip (400, 300)\<lparr>drv_cap := dark_clip\<lparr>cap_pos := Suc 0\<rparr>\<rparr>) =
   Inr (\<lparr>drv_buffer = [invert_frame [[BGR 0 0 0]]], drv_trail = trail_init,
          drv_cap = dark_clip\<lparr>cap_pos := Suc 0\<rparr>, drv_pointer = (0, 0)\<rparr>,
        [MoveTo 0 0, ImShow [[BGR 0 0 0]] [Circle (0, 0) 5 green (-1)], WaitKey 33], True)"
proof -
  have pf: "process_frame [[BGR 0 0 0]] [] 3 (1/2) = Inr ([invert_frame [[BGR 0 0 0]]], [[BGR 0 0 0]])"
    by (simp add: process_frame_def)
  show ?thesis
    by (simp add: loop_body_def drv_init_def ui_default_def pf dark_detect wait_ms_30_10 on_pupil_def trail_on_pupil_def
        trail_init_def pointer_effect_def py_mod_def default_config_def handle_key_def key_code_def)
qed

lemma dark_run:
  "main_loop default_config cv_test 30 True [ui_default\<lparr>ui_key := 27\<rparr>] (drv_init dark_clip (400, 300)) =
   Some (\<lparr>drv_buffer = [invert_frame [[BGR 0 0 0]]], drv_trail = trail_init,
           drv_cap = dark_clip\<lparr>cap_pos := Suc 0\<rparr>, drv_pointer = (0, 0)\<rparr>,
         [MoveTo 0 0, ImShow [[BGR 0 0 0]] [Circle (0, 0) 5 green (-1)], WaitKey 33], Quit)"
proof -
  have rd: "cap_read (drv_cap (drv_init dark_clip (400, 300))) = Some ([[BGR 0 0 0]], dark_clip\<lparr>cap_pos := Suc 0\<rparr>)"
    by (simp add: cap_read_def drv_init_def dark_clip_def)
  show ?thesis by (subst main_loop_read [OF rd]) (simp add: dark_loop_body)
qed

text \<open>
  The same clip with no key pressed and the pointer starting at \<open>(400, 300)\<close>: the first
  iteration moves the pointer to \<open>(0, 0)\<close>; the stream ends, loops back to its frame,
  and the second \<open>pyautogui.moveTo\<close>, issued with the pointer in the fail-safe corner,
  raises \<open>FailSafeException\<close>.
\<close>

definition dark_after_one :: drv_state where
  "dark_after_one = \<lparr>drv_buffer = [invert_frame [[BGR 0 0 0]]], drv_trail = trail_init,
                      drv_cap = dark_clip\<lparr>cap_pos := Suc 0\<rparr>, drv_pointer = (0, 0)\<rparr>"

lemma dark_first_pass:
  "loop_body default_config cv_test 30 ui_default [[BGR 0 0 0]]
     (drv_init dark_clip (400, 300)\<lparr>drv_cap := dark_clip\<lparr>cap_pos := Suc 0\<rparr>\<rparr>) =
   Inr (dark_after_one,
        [MoveTo 0 0, ImShow [[BGR 0 0 0]] [Circle (0, 0) 5 green (-1)], WaitKey 33], False)"
proof -
  have pf: "process_frame [[BGR 0 0 0]] [] 3 (1/2) = Inr ([invert_frame [[BGR 0 0 0]]], [[BGR 0 0 0]])"
    by (simp add: process_frame_def)
  show ?thesis
    by (simp add: loop_body_def drv_init_def dark_after_one_def ui_default_def pf dark_detect wait_ms_30_10
        on_pupil_def trail_on_pupil_def trail_init_def pointer_effect_def py_mod_def default_config_def
        handle_key_def key_code_def)
qed

lemma dark_second_pass:
  "loop_body default_config cv_test 30 ui_default [[BGR 0 0 0]]
     dark_after_one = Inl FailSafeException"
proof -
  have pf: "process_frame [[BGR 0 0 0]] [invert_frame [[BGR 0 0 0]]] 3 (1/2) =
              Inr ([invert_frame [[BGR 0 0 0]], invert_frame [[BGR 0 0 0]]], [[BGR 0 0 0]])"
    by (simp add: process_frame_def)
  show ?thesis
    by (simp add: loop_body_def dark_after_one_def ui_default_def pf dark_detect
        on_pupil_def trail_on_pupil_def trail_init_def pointer_effect_def py_mod_def default_config_def)
qed

lemma dark_failsafe_run:
  "main_loop default_config cv_test 30 True [ui_default, ui_default] (drv_init dark_clip (400, 300)) =
   Some (dark_after_one,
         [MoveTo 0 0, ImShow [[BGR 0 0 0]] [Circle (0, 0) 5 green (-1)], WaitKey 33], Crash FailSafeException)"
proof -
  have rd: "cap_read (drv_cap (drv_init dark_clip (400, 300))) = Some ([[BGR 0 0 0]], dark_clip\<lparr>cap_pos := Suc 0\<rparr>)"
    by (simp add: cap_read_def drv_init_def dark_clip_def)
  have rd1: "cap_read (drv_cap dark_after_one) = None"
    by (simp add: cap_read_def dark_after_one_def dark_clip_def)
  have rd2: "cap_read (drv_cap (dark_after_one\<lparr>drv_cap := cap_rewind (drv_cap dark_after_one)\<rparr>)) =
               Some ([[BGR 0 0 0]], dark_clip\<lparr>cap_pos := Suc 0\<rparr>)"
    by (simp add: cap_read_def cap_rewind_def dark_after_one_def dark_clip_def)
  have up: "dark_after_one\<lparr>drv_cap := cap_rewind (drv_cap dark_after_one), drv_cap := dark_clip\<lparr>cap_pos := Suc 0\<rparr>\<rparr> =
              dark_after_one"
    by (simp add: dark_after_one_def)
  have "main_loop default_config cv_test 30 True [ui_default] dark_after_one =
          main_loop default_config cv_test 30 True [ui_default]
            (dark_after_one\<lparr>drv_cap := cap_rewind (drv_cap dark_after_one)\<rparr>)"
    by (subst main_loop_Cons) (simp add: rd1)
  also have "\<dots> = Some (dark_after_one, [], Crash FailSafeException)"
    by (simp only: main_loop_read [OF rd2] up dark_second_pass sum.case)
  finally have "main_loop default_config cv_test 30 True [ui_default] dark_after_one =
                  Some (dark_after_one, [], Crash FailSafeException)" .
  then show ?thesis by (simp add: main_loop_read [OF rd] dark_first_pass)
qed

lemma main_default_config:
  "main default_config cv file_cap cam_cap ptr uis =
   map_option (\<lambda>(st, effs, out). (st, setup_effects @ effs @ cleanup_effects out, out))
     (main_loop default_config cv (capture_fps file_cap) True uis (drv_init file_cap ptr))"
  by (simp add: main_def open_source_def default_config_def py_strip_def py_isspace_def)

subsection \<open>Properties of the PipelineDriver\<close>

text \<open>
  C18. Termination of the main loop: whenever the capture has at least one frame or
  looping is off, the loop returns on every finite sequence of user inputs (it stops
  at ESC, at the end of a non-looping stream, on an exception, or when the inputs run
  out).
\<close>

theorem main_loop_returns:
  "cap_frames (drv_cap st) \<noteq> [] \<or> \<not> loop \<Longrightarrow> \<exists>r. main_loop cfg cv fps loop uis st = Some r"
proof (induction uis arbitrary: st)
  case Nil
  then show ?case by (simp add: main_loop_nil)
next
  case (Cons ui uis')
  have IH: "\<And>st'. cap_frames (drv_cap st') = cap_frames (drv_cap st) \<Longrightarrow>
                   \<exists>r. main_loop cfg cv fps loop uis' st' = Some r"
    using Cons.IH Cons.prems by simp
  show ?case
  proof (cases "cap_read (drv_cap st)")
    case None
    show ?thesis
    proof (cases loop)
      case True
      let ?st = "st\<lparr>drv_cap := cap_rewind (drv_cap st)\<rparr>"
      from True Cons.prems have "cap_frames (drv_cap st) \<noteq> []" by simp
      then obtain f c' where rd: "cap_read (drv_cap ?st) = Some (f, c')"
        using cap_read_rewind by fastforce
      have "cap_frames (drv_cap ?st) = cap_frames (drv_cap st)" by (simp add: cap_rewind_def)
      then have "\<exists>r. main_loop cfg cv fps loop (ui # uis') ?st = Some r"
        using main_loop_read_returns [OF rd] IH by simp
      with None True show ?thesis by (simp add: main_loop_no_read)
    next
      case False
      with None show ?thesis by (simp add: main_loop_no_read)
    qed
  next
    case (Some a)
    then obtain frame cap' where rd: "cap_read (drv_cap st) = Some (frame, cap')" by (cases a) auto
    show ?thesis by (rule main_loop_read_returns [OF rd IH])
  qed
qed

text \<open>
  C19. The main loop never returns when looping is on and the capture delivers no frame
  at all (for example a missing \<open>test.mov\<close>): \<open>cap.read()\<close> fails, the position is
  reset and the loop \<open>continue\<close>s forever without reaching \<open>cv2.waitKey\<close>, so ESC
  is never read.
\<close>

theorem main_loop_spins:
  assumes "loop" "uis \<noteq> []" "cap_frames (drv_cap st) = []"
  shows "main_loop cfg cv fps loop uis st = None"
proof (rule ccontr)
  assume "main_loop cfg cv fps loop uis st \<noteq> None"
  then obtain r where ret: "main_loop cfg cv fps loop uis st = Some r" by blast
  have "loop \<longrightarrow> uis \<noteq> [] \<longrightarrow> cap_frames (drv_cap st) \<noteq> []"
    using ret
  proof (induction rule: main_loop_run_induct)
    case (Rewind ui uis' st r)
    then show ?case by (simp add: cap_rewind_def)
  qed (auto simp: cap_read_def split: if_splits)
  with assms show False by simp
qed


text \<open>
  C20. Exceptions of the main loop: on a capture whose frames all have one size, and
  with a positive screen size on every iteration (or test mode on), the only exception
  a run can end in is pyautogui's \<open>FailSafeException\<close>, and only outside test mode:
  the clamp \<open>max(1, delay)\<close> keeps \<open>buffer[-(delay+1)]\<close> in range,
  \<open>cv2.addWeighted\<close> always sees equal shapes, \<open>max\<close> is never applied to an empty
  list and \<open>%\<close> never divides by zero.
\<close>

theorem main_loop_no_crash:
  assumes "main_loop cfg cv fps loop uis st = Some (st', effs, out)"
    and "list_all (is_frame h w) (cap_frames (drv_cap st))" "list_all (is_frame h w) (drv_buffer st)"
    and "screens_ok cfg uis"
  shows "\<forall>e. out = Crash e \<longrightarrow> e = FailSafeException \<and> \<not> test_mode cfg"
proof -
  have "list_all (is_frame h w) (cap_frames (drv_cap st)) \<longrightarrow> list_all (is_frame h w) (drv_buffer st) \<longrightarrow>
        screens_ok cfg uis \<longrightarrow>
        (\<forall>e. snd (snd (st', effs, out)) = Crash e \<longrightarrow> e = FailSafeException \<and> \<not> test_mode cfg)"
    using assms(1)
  proof (induction rule: main_loop_run_induct)
    case (Rewind ui uis' st r)
    then show ?case by (simp add: cap_rewind_def)
  next
    case (Crash ui uis' st frame cap' e)
    show ?case
    proof (intro impI)
      assume F: "list_all (is_frame h w) (cap_frames (drv_cap st))"
        and B: "list_all (is_frame h w) (drv_buffer st)" and S: "screens_ok cfg (ui # uis')"
      have fr: "is_frame h w frame" using F cap_read_mem [OF Crash(1)] by (simp add: list_all_iff)
      have B': "list_all (is_frame h w) (drv_buffer (st\<lparr>drv_cap := cap'\<rparr>))" using B by simp
      have S': "test_mode cfg \<or> (0 < fst (ui_screen ui) \<and> 0 < snd (ui_screen ui))"
        using S by (auto simp: screens_ok_def)
      have "e = FailSafeException \<and> \<not> test_mode cfg" by (rule loop_body_InlD [OF Crash(2) B' fr S'])
      then show "\<forall>e'. snd (snd (st\<lparr>drv_cap := cap'\<rparr>, [], Crash e)) = Crash e' \<longrightarrow>
                   e' = FailSafeException \<and> \<not> test_mode cfg" by simp
    qed
  next
    case (Continue ui uis' st frame cap' st1 effs1 st'' effs' out)
    show ?case
    proof (intro impI)
      assume F: "list_all (is_frame h w) (cap_frames (drv_cap st))"
        and B: "list_all (is_frame h w) (drv_buffer st)" and S: "screens_ok cfg (ui # uis')"
      have fr: "is_frame h w frame" using F cap_read_mem [OF Continue(1)] by (simp add: list_all_iff)
      have "cap_frames (drv_cap st1) = cap_frames (drv_cap st)"
        using loop_body_cap [OF Continue(2)] cap_read_frames [OF Continue(1)] by simp
      moreover have "drv_buffer st1 = drv_buffer st @ [invert_frame frame]"
        using loop_body_buffer [OF Continue(2)] by simp
      moreover have "screens_ok cfg uis'" using S by (auto simp: screens_ok_def)
      ultimately show "\<forall>e. snd (snd (st'', effs1 @ effs', out)) = Crash e \<longrightarrow>
                         e = FailSafeException \<and> \<not> test_mode cfg"
        using Continue(3) F B fr by simp
    qed
  qed simp_all
  with assms(2-4) show ?thesis by simp
qed


text \<open>
  C21. The delay passed to \<open>cv2.waitKey\<close> (line 91) is \<open>int((1000 / fps) / playback_speed)\<close>
  with \<open>playback_speed = max(1, slider) / 10\<close>: for a positive frame rate it is the floor
  of \<open>10000 / (fps \<cdot> max(1, slider))\<close>, never negative. The spec says it is rounded; the
  code truncates (at 24 fps and speed 10 it waits 41 ms, not 42).
\<close>

theorem wait_ms_floor:
  "0 < fps \<Longrightarrow> wait_ms fps s = \<lfloor>10000 / (fps * of_int (max 1 s))\<rfloor> \<and> 0 \<le> wait_ms fps s"
  using wait_ms_quotient [of fps s] by (simp add: wait_ms_def playback_speed_def py_int_nonneg)

text \<open>
  C22. The waiting delay truncates to 0 exactly when \<open>fps \<cdot> max(1, slider)\<close> exceeds
  10000 (for an integer frame rate), and \<open>cv2.waitKey(0)\<close> waits for a key forever:
  at 240 fps with the speed slider at 50 the loop stalls on every frame.
\<close>

theorem wait_ms_blocks:
  "0 < n \<Longrightarrow> (wait_ms (of_int n) s = 0) = (10000 < n * max 1 s)"
proof -
  assume n: "0 < n"
  then have m: "0 < n * max 1 s" by simp
  show ?thesis
    using wait_ms_of_int [OF n, of s] pos_imp_zdiv_pos_iff [OF m, of 10000]
      div_pos_pos_trivial [of 10000 "n * max 1 s"] by auto
qed

text \<open>
  C23. Key dispatch (lines 92--97): a code whose low byte is 27 quits and leaves the
  trail alone, one whose low byte is 116 (\<open>ord("t")\<close>) toggles the trail mode, every
  other code, no key pressed included, does nothing.
\<close>

theorem handle_key_dispatch:
  "handle_key ts (key_code k) =
     (if k mod 256 = 27 then (ts, True)
      else if k mod 256 = 116 then (toggle_trail ts, False) else (ts, False))"
  by (simp add: handle_key_def key_code_def and_255_eq_mod)

text \<open>
  C24. Pointer control (lines 85--87): outside test mode, with a positive screen size,
  the pointer goes to the pupil's coordinates modulo the screen size, which always
  lies on the screen: a pupil at \<open>(850, 650)\<close> on an \<open>800 \<times> 600\<close> screen moves it
  to \<open>(50, 50)\<close>.
\<close>

theorem pointer_effect_wraps:
  assumes "\<not> test_mode cfg" "0 < fst (ui_screen ui)" "0 < snd (ui_screen ui)"
  shows "pointer_effect cfg ui (x, y) = Inr [MoveTo (x mod fst (ui_screen ui)) (y mod snd (ui_screen ui))] \<and>
         0 \<le> x mod fst (ui_screen ui) \<and> x mod fst (ui_screen ui) < fst (ui_screen ui) \<and>
         0 \<le> y mod snd (ui_screen ui) \<and> y mod snd (ui_screen ui) < snd (ui_screen ui)"
  using assms by (simp add: pointer_effect_def py_mod_pos)

text \<open>
  C25. Error path of pointer control: outside test mode, a screen size with a zero
  dimension makes \<open>x % screen_w\<close> or \<open>y % screen_h\<close> raise \<open>ZeroDivisionError\<close>.
\<close>

theorem pointer_effect_zero_screen:
  "\<not> test_mode cfg \<Longrightarrow> fst (ui_screen ui) = 0 \<or> snd (ui_screen ui) = 0 \<Longrightarrow>
   pointer_effect cfg ui p = Inl ZeroDivisionError"
  by (auto simp: pointer_effect_def py_mod_def split: sum.split)

text \<open>
  C26. One iteration in order: the inverted frame is appended to the buffer, the
  capture is left where \<open>cap.read()\<close> put it, and the effects are at most one pointer
  move, then \<open>cv2.imshow\<close> of the motion frame with its markers, then \<open>cv2.waitKey\<close>
  with the delay of C21.
\<close>

theorem loop_body_effects:
  assumes "loop_body cfg cv fps ui frame st = Inr (st', effs, q)"
  shows "drv_buffer st' = drv_buffer st @ [invert_frame frame] \<and> drv_cap st' = drv_cap st \<and>
         (\<exists>moves motion draws. effs = moves @ [ImShow motion draws, WaitKey (wait_ms fps (ui_speed ui))] \<and>
            length moves \<le> 1)"
proof (intro conjI)
  show "drv_buffer st' = drv_buffer st @ [invert_frame frame]" using assms by (rule loop_body_buffer)
  show "drv_cap st' = drv_cap st" using assms by (rule loop_body_cap)
  from assms show "\<exists>moves motion draws. effs = moves @ [ImShow motion draws, WaitKey (wait_ms fps (ui_speed ui))] \<and>
            length moves \<le> 1"
    by (rule loop_body_InrE) (blast dest: on_pupil_moves)
qed

text \<open>
  C27. A frame with no pupil: when nothing is detected, the iteration draws no marker,
  moves no pointer and leaves the trail as it was (up to the key), and shows the
  motion frame as it is.
\<close>

theorem loop_body_miss:
  assumes "process_frame frame (drv_buffer st) (max 1 (ui_delay ui)) (of_int (ui_opacity ui) / 100) =
             Inr (buf', motion)"
    and "detect_pupil cv motion = Inr None"
  shows "loop_body cfg cv fps ui frame st =
     Inr (st\<lparr>drv_buffer := buf', drv_trail := fst (handle_key (drv_trail st) (key_code (ui_key ui)))\<rparr>,
          [ImShow motion [], WaitKey (wait_ms fps (ui_speed ui))],
          snd (handle_key (drv_trail st) (key_code (ui_key ui))))"
  using assms by (simp add: loop_body_def on_pupil_def split: prod.split)

text \<open>
  C28. Test mode never moves the pointer: in test mode no iteration emits a
  \<open>pyautogui.moveTo\<close>.
\<close>

theorem loop_body_test_mode:
  "test_mode cfg \<Longrightarrow> loop_body cfg cv fps ui frame st = Inr (st', effs, q) \<Longrightarrow>
   \<forall>e \<in> set effs. \<forall>x y. e \<noteq> MoveTo x y"
  by (erule loop_body_InrE)
     (auto simp: on_pupil_def pointer_effect_def split: option.splits prod.splits)

text \<open>
  C29. Source selection (lines 36--41): a missing input path, or one made only of
  whitespace as Python's \<open>str.isspace\<close> sees it, opens camera 0 and switches looping
  off; a path with any other character opens the file and keeps the configured looping.
\<close>

theorem open_source_select:
  "open_source cfg file_cap cam_cap =
     (if \<exists>p. input_path cfg = Some p \<and> \<not> list_all py_isspace p then (file_cap, loop_video cfg)
      else (cam_cap, False))"
  by (auto simp: open_source_def py_strip_Nil_iff split: option.split)

text \<open>
  C35. The fail-safe of \<open>pyautogui.moveTo\<close> (line 87): outside test mode, with a positive
  screen size, an iteration that detects a pupil while the pointer rests at \<open>(0, 0)\<close>
  raises \<open>FailSafeException\<close>, whatever the detected position; so after the pointer was
  sent to the origin, the next detection ends the program.
\<close>

theorem loop_body_failsafe:
  assumes "\<not> test_mode cfg" "0 < fst (ui_screen ui)" "0 < snd (ui_screen ui)"
    and "drv_pointer st = (0, 0)"
    and "process_frame frame (drv_buffer st) (max 1 (ui_delay ui)) (of_int (ui_opacity ui) / 100) = Inr (buf', motion)"
    and "detect_pupil cv motion = Inr (Some p)"
  shows "loop_body cfg cv fps ui frame st = Inl FailSafeException"
proof -
  obtain ts' draws where tr: "trail_on_pupil (drv_trail st) p = (ts', draws)" by (rule prod.exhaust)
  have "pointer_effect cfg ui p = Inr [MoveTo (fst p mod fst (ui_screen ui)) (snd p mod snd (ui_screen ui))]"
    using assms(1-3) by (simp add: pointer_effect_def py_mod_def)
  then have "on_pupil cfg ui (drv_trail st) (Some p) =
               Inr (ts', draws, [MoveTo (fst p mod fst (ui_screen ui)) (snd p mod snd (ui_screen ui))])"
    by (simp add: on_pupil_def tr)
  with assms(4-6) show ?thesis by (simp add: loop_body_def Let_def)
qed

subsection \<open>Witnesses\<close>

theorem main_loop_returns_witness:
  "cap_frames (drv_cap (drv_init dark_clip (400, 300))) \<noteq> [] \<and>
   (\<exists>r. main_loop default_config cv_test 30 True [ui_default, ui_default, ui_default] (drv_init dark_clip (400, 300)) = Some r)"
  using main_loop_returns [of "drv_init dark_clip (400, 300)" True default_config cv_test 30
      "[ui_default, ui_default, ui_default]"]
  by (simp add: drv_init_def dark_clip_def)

theorem main_loop_spins_witness:
  "True \<and> [ui_default] \<noteq> [] \<and> cap_frames (drv_cap (drv_init \<lparr>cap_frames = [], cap_pos = 0, cap_fps = 0\<rparr> (400, 300))) = [] \<and>
   main default_config cv_test \<lparr>cap_frames = [], cap_pos = 0, cap_fps = 0\<rparr> dark_clip (400, 300) [ui_default] = None"
  using main_loop_spins [of True "[ui_default]" "drv_init \<lparr>cap_frames = [], cap_pos = 0, cap_fps = 0\<rparr> (400, 300)"
      default_config cv_test 30]
  by (simp add: main_default_config drv_init_def capture_fps_def)

theorem main_loop_no_crash_witness:
  "main_loop default_config cv_test 30 True [ui_default, ui_default] (drv_init dark_clip (400, 300)) =
     Some (dark_after_one,
           [MoveTo 0 0, ImShow [[BGR 0 0 0]] [Circle (0, 0) 5 green (-1)], WaitKey 33], Crash FailSafeException) \<and>
   list_all (is_frame 1 1) (cap_frames (drv_cap (drv_init dark_clip (400, 300)))) \<and>
   list_all (is_frame 1 1) (drv_buffer (drv_init dark_clip (400, 300))) \<and>
   screens_ok default_config [ui_default, ui_default] \<and>
   FailSafeException = FailSafeException \<and> \<not> test_mode default_config"
proof -
  have F: "list_all (is_frame 1 1) (cap_frames (drv_cap (drv_init dark_clip (400, 300))))"
    by (simp add: drv_init_def dark_clip_def is_frame_def)
  have B: "list_all (is_frame 1 1) (drv_buffer (drv_init dark_clip (400, 300)))" by (simp add: drv_init_def)
  have S: "screens_ok default_config [ui_default, ui_default]"
    by (simp add: screens_ok_def ui_default_def)
  show ?thesis using main_loop_no_crash [OF dark_failsafe_run F B S] dark_failsafe_run F B S by simp
qed

theorem wait_ms_floor_witness:
  "0 < (24::rat) \<and> wait_ms 24 10 = \<lfloor>10000 / (24 * of_int (max 1 (10::int)) :: rat)\<rfloor> \<and> wait_ms 24 10 = 41"
  using wait_ms_floor [of 24 10] wait_ms_of_int [of 24 10] by simp

theorem wait_ms_blocks_witness:
  "0 < (240::int) \<and> wait_ms (of_int 240) 50 = 0 \<and> 10000 < (240::int) * max 1 50"
  using wait_ms_blocks [of 240 50] by simp

theorem pointer_effect_wraps_witness:
  "\<not> test_mode default_config \<and> 0 < fst (ui_screen ui_default) \<and> 0 < snd (ui_screen ui_default) \<and>
   pointer_effect default_config ui_default (850, 650) = Inr [MoveTo 50 50]"
  using pointer_effect_wraps [of default_config ui_default 850 650]
  by (simp add: default_config_def ui_default_def)

theorem pointer_effect_zero_screen_witness:
  "\<not> test_mode default_config \<and> (fst (ui_screen (ui_default\<lparr>ui_screen := (0, 600)\<rparr>)) = 0 \<or>
     snd (ui_screen (ui_default\<lparr>ui_screen := (0, 600)\<rparr>)) = 0) \<and>
   pointer_effect default_config (ui_default\<lparr>ui_screen := (0, 600)\<rparr>) (850, 650) = Inl ZeroDivisionError"
  using pointer_effect_zero_screen [of default_config "ui_default\<lparr>ui_screen := (0, 600)\<rparr>" "(850, 650)"]
  by (simp add: default_config_def)

theorem loop_body_effects_witness:
  "drv_buffer (\<lparr>drv_buffer = [invert_frame [[BGR 0 0 0]]], drv_trail = trail_init,
                 drv_cap = dark_clip\<lparr>cap_pos := Suc 0\<rparr>, drv_pointer = (0, 0)\<rparr>) =
     drv_buffer (drv_init dark_clip (400, 300)\<lparr>drv_cap := dark_clip\<lparr>cap_pos := Suc 0\<rparr>\<rparr>) @ [invert_frame [[BGR 0 0 0]]] \<and>
   (\<exists>moves motion draws. [MoveTo 0 0, ImShow [[BGR 0 0 0]] [Circle (0, 0) 5 green (-1)], WaitKey 33] =
      moves @ [ImShow motion draws, WaitKey (wait_ms 30 (ui_speed (ui_default\<lparr>ui_key := 27\<rparr>)))] \<and>
      length moves \<le> 1)"
  using loop_body_effects [OF dark_loop_body] by simp

theorem loop_body_miss_witness:
  "loop_body default_config cv_test 30 ui_default [[BGR 200 200 200]] (drv_init dark_clip (400, 300)) =
     Inr ((drv_init dark_clip (400, 300))\<lparr>drv_buffer := [invert_frame [[BGR 200 200 200]]], drv_trail := trail_init\<rparr>,
          [ImShow [[BGR 200 200 200]] [], WaitKey 33], False)"
proof -
  have pf: "process_frame [[BGR 200 200 200]] (drv_buffer (drv_init dark_clip (400, 300))) (max 1 (ui_delay ui_default))
              (of_int (ui_opacity ui_default) / 100) =
            Inr ([invert_frame [[BGR 200 200 200]]], [[BGR 200 200 200]])"
    by (simp add: process_frame_def drv_init_def ui_default_def)
  have dp: "detect_pupil cv_test [[BGR 200 200 200]] = Inr None"
    by (simp add: detect_pupil_def cv_test_def cvt_gray_def cvt_gray_pixel_def threshold_binary_inv_def
        has_foreground_def)
  show ?thesis using loop_body_miss [OF pf dp, of default_config 30]
    by (simp add: drv_init_def ui_default_def wait_ms_30_10 handle_key_def key_code_def)
qed

theorem loop_body_test_mode_witness:
  "test_mode (default_config\<lparr>test_mode := True\<rparr>) \<and>
   loop_body (default_config\<lparr>test_mode := True\<rparr>) cv_test 30 ui_default [[BGR 0 0 0]] (drv_init dark_clip (400, 300)) =
     Inr ((drv_init dark_clip (400, 300))\<lparr>drv_buffer := [invert_frame [[BGR 0 0 0]]]\<rparr>,
          [ImShow [[BGR 0 0 0]] [Circle (0, 0) 5 green (-1)], WaitKey 33], False) \<and>
   (\<forall>x y. ImShow [[BGR 0 0 0]] [Circle (0, 0) 5 green (-1)] \<noteq> MoveTo x y \<and> WaitKey 33 \<noteq> MoveTo x y)"
proof -
  have pf: "process_frame [[BGR 0 0 0]] [] 3 (1/2) = Inr ([invert_frame [[BGR 0 0 0]]], [[BGR 0 0 0]])"
    by (simp add: process_frame_def)
  have lb: "loop_body (default_config\<lparr>test_mode := True\<rparr>) cv_test 30 ui_default [[BGR 0 0 0]] (drv_init dark_clip (400, 300)) =
     Inr ((drv_init dark_clip (400, 300))\<lparr>drv_buffer := [invert_frame [[BGR 0 0 0]]]\<rparr>,
          [ImShow [[BGR 0 0 0]] [Circle (0, 0) 5 green (-1)], WaitKey 33], False)"
    by (simp add: loop_body_def drv_init_def ui_default_def pf dark_detect wait_ms_30_10 on_pupil_def trail_on_pupil_def
        trail_init_def pointer_effect_def default_config_def handle_key_def key_code_def)
  show ?thesis using loop_body_test_mode [OF _ lb] lb by (simp add: default_config_def)
qed

theorem loop_body_failsafe_witness:
  "\<not> test_mode default_config \<and> 0 < fst (ui_screen ui_default) \<and> 0 < snd (ui_screen ui_default) \<and>
   drv_pointer dark_after_one = (0, 0) \<and>
   process_frame [[BGR 0 0 0]] (drv_buffer dark_after_one) (max 1 (ui_delay ui_default))
     (of_int (ui_opacity ui_default) / 100) =
     Inr ([invert_frame [[BGR 0 0 0]], invert_frame [[BGR 0 0 0]]], [[BGR 0 0 0]]) \<and>
   detect_pupil cv_test [[BGR 0 0 0]] = Inr (Some (0, 0)) \<and>
   loop_body default_config cv_test 30 ui_default [[BGR 0 0 0]] dark_after_one = Inl FailSafeException"
proof -
  have pf: "process_frame [[BGR 0 0 0]] (drv_buffer dark_after_one) (max 1 (ui_delay ui_default))
     (of_int (ui_opacity ui_default) / 100) =
     Inr ([invert_frame [[BGR 0 0 0]], invert_frame [[BGR 0 0 0]]], [[BGR 0 0 0]])"
    by (simp add: process_frame_def dark_after_one_def ui_default_def)
  have c: "\<not> test_mode default_config" by (simp add: default_config_def)
  have u: "0 < fst (ui_screen ui_default)" "0 < snd (ui_screen ui_default)" by (simp_all add: ui_default_def)
  have p: "drv_pointer dark_after_one = (0, 0)" by (simp add: dark_after_one_def)
  show ?thesis
    using loop_body_failsafe [OF c u p pf dark_detect, of 30] c u p pf dark_detect by simp
qed

text \<open>
  C30. The loop's invariant over whole runs: after any run that returns, the buffer is
  the initial buffer followed by the inverted frames read, each a frame of the clip, at
  most one per user input; the clip itself is unchanged.
\<close>

theorem main_loop_buffer:
  assumes "main_loop cfg cv fps loop uis st = Some r"
  shows "buffer_grown st (length uis) (fst r)"
  using assms
proof (induction rule: main_loop_run_induct)
  case (Rewind ui uis' st r)
  then show ?case by (simp add: buffer_grown_cap_update cap_rewind_def)
next
  case (Crash ui uis' st frame cap' e)
  then show ?case using cap_read_frames [OF Crash(1)] by (simp add: buffer_grown_def)
next
  case (Quit ui uis' st frame cap' st' effs)
  then show ?case using buffer_grown_read [OF Quit(1,2) buffer_grown_refl] by simp
next
  case (Continue ui uis' st frame cap' st' effs st'' effs' out)
  then show ?case using buffer_grown_read [OF Continue(1,2)] by simp
qed (simp_all add: buffer_grown_refl)

theorem main_loop_buffer_witness:
  "main_loop default_config cv_test 30 True [ui_default\<lparr>ui_key := 27\<rparr>] (drv_init dark_clip (400, 300)) =
     Some (\<lparr>drv_buffer = [invert_frame [[BGR 0 0 0]]], drv_trail = trail_init,
             drv_cap = dark_clip\<lparr>cap_pos := Suc 0\<rparr>, drv_pointer = (0, 0)\<rparr>,
           [MoveTo 0 0, ImShow [[BGR 0 0 0]] [Circle (0, 0) 5 green (-1)], WaitKey 33], Quit) \<and>
   buffer_grown (drv_init dark_clip (400, 300)) 1
     \<lparr>drv_buffer = [invert_frame [[BGR 0 0 0]]], drv_trail = trail_init, drv_cap = dark_clip\<lparr>cap_pos := Suc 0\<rparr>, drv_pointer = (0, 0)\<rparr>"
  using main_loop_buffer [OF dark_run] dark_run by simp

text \<open>
  C34. The order of the program's effects: a run of \<open>main\<close> first opens the window
  and its three trackbars, then has only the loop's effects (pointer moves,
  \<open>imshow\<close>, \<open>waitKey\<close>), and releases the capture and closes the windows last,
  which it does exactly when the loop ended by \<open>break\<close> (ESC or the end of a stream
  that does not loop); after an exception neither happens.
\<close>

theorem main_effects:
  assumes "main cfg cv file_cap cam_cap ptr uis = Some (st, effs, out)"
  shows "\<exists>body. effs = setup_effects @ body @ cleanup_effects out \<and> list_all loop_effect body \<and>
           (Release \<in> set effs \<longleftrightarrow> out = Quit \<or> out = StreamEnd)"
proof -
  obtain cap loop where os: "open_source cfg file_cap cam_cap = (cap, loop)" by (rule prod.exhaust)
  with assms obtain body where
    run: "main_loop cfg cv (capture_fps cap) loop uis (drv_init cap ptr) = Some (st, body, out)"
    and effs: "effs = setup_effects @ body @ cleanup_effects out"
    by (auto simp: main_def split: prod.splits)
  have k: "list_all loop_effect body" using main_loop_effect_kinds [OF run] by simp
  then have "Release \<notin> set body" by (auto simp: list_all_iff loop_effect_def)
  then have "Release \<in> set effs \<longleftrightarrow> out = Quit \<or> out = StreamEnd"
    by (cases out) (simp_all add: effs setup_effects_def cleanup_effects_def)
  with effs k show ?thesis by blast
qed

theorem main_effects_witness:
  "main default_config cv_test dark_clip dark_clip (400, 300) [ui_default\<lparr>ui_key := 27\<rparr>] =
     Some (\<lparr>drv_buffer = [invert_frame [[BGR 0 0 0]]], drv_trail = trail_init,
             drv_cap = dark_clip\<lparr>cap_pos := Suc 0\<rparr>, drv_pointer = (0, 0)\<rparr>,
           setup_effects @ [MoveTo 0 0, ImShow [[BGR 0 0 0]] [Circle (0, 0) 5 green (-1)], WaitKey 33] @
             [Release, DestroyAllWindows], Quit) \<and>
   (\<exists>body. setup_effects @ [MoveTo 0 0, ImShow [[BGR 0 0 0]] [Circle (0, 0) 5 green (-1)], WaitKey 33] @
             [Release, DestroyAllWindows] = setup_effects @ body @ cleanup_effects Quit \<and>
           list_all loop_effect body)"
proof -
  have fps: "capture_fps dark_clip = 30" by (simp add: capture_fps_def dark_clip_def)
  have m: "main default_config cv_test dark_clip dark_clip (400, 300) [ui_default\<lparr>ui_key := 27\<rparr>] =
     Some (\<lparr>drv_buffer = [invert_frame [[BGR 0 0 0]]], drv_trail = trail_init,
             drv_cap = dark_clip\<lparr>cap_pos := Suc 0\<rparr>, drv_pointer = (0, 0)\<rparr>,
           setup_effects @ [MoveTo 0 0, ImShow [[BGR 0 0 0]] [Circle (0, 0) 5 green (-1)], WaitKey 33] @
             [Release, DestroyAllWindows], Quit)"
    by (simp only: main_default_config fps dark_run) (simp add: cleanup_effects_def)
  show ?thesis using main_effects [OF m] m by blast
qed

end
