(* ===== verification/Tracking.thy ===== *)
theory Tracking
  imports DelayBuffer Detect
begin

text \<open>
  The per-frame pipeline of \<open>main.py\<close> (\<open>process_frame\<close> then \<open>detect_pupil\<close>,
  lines 70--71) run over synthetic scenes, as the spec's end-to-end scenario (section 8)
  describes them: a dark dot of one pixel on a uniform grey background, moving from
  frame to frame, and a scene that does not move. The scenes are grid frames
  (\<open>Frame.grid_frame\<close>); the stream is \<open>DelayBuffer.process_stream\<close> at opacity 1/2,
  the trackbar's default of 50.
\<close>

text \<open>
  The dot scene: pixel \<open>p\<close> black, every other pixel the grey level \<open>bg\<close>; and the
  positions of an \<open>h \<times> w\<close> frame.
\<close>

definition dot_pixel :: "sample \<Rightarrow> int \<times> int \<Rightarrow> int \<times> int \<Rightarrow> pixel" where
  "dot_pixel bg p z = (if z = p then BGR 0 0 0 else BGR bg bg bg)"

definition dot_frame :: "nat \<Rightarrow> nat \<Rightarrow> sample \<Rightarrow> int \<times> int \<Rightarrow> frame" where
  "dot_frame h w bg p = grid_frame h w (dot_pixel bg p)"

definition in_grid :: "nat \<Rightarrow> nat \<Rightarrow> int \<times> int \<Rightarrow> bool" where
  "in_grid h w z \<longleftrightarrow> 0 \<le> fst z \<and> fst z < int w \<and> 0 \<le> snd z \<and> snd z < int h"

subsection \<open>Detection on the blended dot scenes\<close>

lemma detect_grid_single:
  assumes cv: "cv_lib_ok cv" and p: "in_grid h w p"
    and dark: "\<And>z. in_grid h w z \<Longrightarrow> unat (cvt_gray_pixel (P z)) \<le> 50 \<longleftrightarrow> z = p"
  shows "detect_pupil cv (grid_frame h w P) = Inr (Some p)"
proof (rule detect_pupil_single [OF cv])
  obtain x y where xy: "p = (x, y)" by (rule prod.exhaust)
  show "fg_pixel (threshold_binary_inv 50 255 (cvt_gray (grid_frame h w P))) p"
    using p dark [OF p] by (simp add: xy fg_pixel_grid in_grid_def)
  fix q
  assume "fg_pixel (threshold_binary_inv 50 255 (cvt_gray (grid_frame h w P))) q"
  moreover obtain a b where ab: "q = (a, b)" by (rule prod.exhaust)
  ultimately have "in_grid h w q" "unat (cvt_gray_pixel (P q)) \<le> 50"
    by (simp_all add: fg_pixel_grid in_grid_def)
  then show "q = p" using dark by blast
qed

lemma raw_dot_detect:
  assumes "cv_lib_ok cv" "50 < unat bg" "in_grid h w p"
  shows "detect_pupil cv (dot_frame h w bg p) = Inr (Some p)"
  unfolding dot_frame_def
  by (rule detect_grid_single [OF assms(1,3)]) (use assms(2) in \<open>simp add: dot_pixel_def\<close>)

lemma blend_dot_detect:
  assumes "cv_lib_ok cv" "155 \<le> unat bg" "in_grid h w p" "p \<noteq> q"
  shows "detect_pupil cv (grid_frame h w (\<lambda>z. add_weighted_pixel (1/2) (1/2) 0 (dot_pixel bg p z)
            (invert_pixel (dot_pixel bg q z)))) = Inr (Some p)"
proof (rule detect_grid_single [OF assms(1,3)])
  fix z
  have ib: "unat (invert_sample bg) = 255 - unat bg" by (rule unat_invert_sample)
  have i0: "unat (invert_sample 0) = 255" by (simp add: invert_sample_def)
  show "unat (cvt_gray_pixel (add_weighted_pixel (1/2) (1/2) 0 (dot_pixel bg p z)
            (invert_pixel (dot_pixel bg q z)))) \<le> 50 \<longleftrightarrow> z = p"
  proof (cases "z = p")
    case True
    with assms(4) have "unat (0::sample) + unat (invert_sample bg) \<le> 100" using ib assms(2) by simp
    then show ?thesis using True assms(4) by (simp add: dot_pixel_def add_weighted_half_dark)
  next
    case False
    have "102 \<le> unat bg + unat (invert_sample (if z = q then 0 else bg))"
      using ib i0 assms(2) by auto
    then have "50 < unat (add_weighted_sample (1/2) (1/2) 0 bg (invert_sample (if z = q then 0 else bg)))"
      by (rule add_weighted_half_bright)
    with False show ?thesis by (auto simp: dot_pixel_def split: if_splits)
  qed
qed

subsection \<open>Properties of the pipeline on synthetic scenes\<close>

text \<open>
  C32. The spec's end-to-end scenario, for every path of the dot: on a background of
  grey level at least 155 and at opacity 1/2, the frames of the warm-up are shown raw
  and the dot is found in each; after it the frame is blended with the inverted frame
  \<open>d\<close> steps back, the current dot stays darker than the threshold while the old dot
  and the background become brighter, and the detector returns the current position
  of the dot on every frame, provided the dot has moved in the last \<open>d\<close> frames.
\<close>

theorem moving_dot_tracked:
  assumes cv: "cv_lib_ok cv" and bg: "155 \<le> unat bg" and ing: "list_all (in_grid h w) ps"
    and mv: "\<forall>t < length ps. d \<le> t \<longrightarrow> ps ! t \<noteq> ps ! (t - d)"
  shows "\<exists>outs. process_stream [] (int d) (1/2) (map (dot_frame h w bg) ps) =
                 Inr (map (\<lambda>p. invert_frame (dot_frame h w bg p)) ps, outs) \<and>
               (\<forall>t < length ps. detect_pupil cv (outs ! t) = Inr (Some (ps ! t)))"
proof -
  let ?fs = "map (dot_frame h w bg) ps"
  have F: "list_all (is_frame h w) ([] @ ?fs)" by (simp add: list_all_iff dot_frame_def)
  obtain outs where run: "process_stream (map invert_frame []) (int d) (1/2) ?fs =
                           Inr (map invert_frame ([] @ ?fs), outs)"
    and nth: "\<forall>t < length ?fs. outs ! t = spec_output d (1/2) ([] @ take (Suc t) ?fs)"
    using process_stream_spec [OF F, of d "1/2"] by blast
  have "detect_pupil cv (outs ! t) = Inr (Some (ps ! t))" if t: "t < length ps" for t
  proof -
    have pt: "in_grid h w (ps ! t)" using ing t by (simp add: list_all_length)
    have o: "outs ! t = spec_output d (1/2) (take (Suc t) ?fs)" using nth t by simp
    show ?thesis
    proof (cases "t < d")
      case True
      then have "outs ! t = dot_frame h w bg (ps ! t)" using o spec_output_take [of t ?fs d "1/2"] t by simp
      then show ?thesis using raw_dot_detect [OF cv _ pt] bg by simp
    next
      case False
      then have "outs ! t = map2 (map2 (add_weighted_pixel (1/2) (1/2) 0)) (dot_frame h w bg (ps ! t))
                   (invert_frame (dot_frame h w bg (ps ! (t - d))))"
        using o spec_output_take [of t ?fs d "1/2"] t by simp
      also have "\<dots> = grid_frame h w (\<lambda>z. add_weighted_pixel (1/2) (1/2) 0 (dot_pixel bg (ps ! t) z)
                        (invert_pixel (dot_pixel bg (ps ! (t - d)) z)))"
        by (simp add: dot_frame_def invert_grid map2_grid)
      finally show ?thesis using blend_dot_detect [OF cv bg pt] mv t False by simp
    qed
  qed
  with run show ?thesis by (simp add: comp_def)
qed

text \<open>
  C31. A static scene at the default opacity (50): once the buffer holds \<open>d\<close> earlier
  frames, every output is the frame blended half and half with its own inverse,
  which is uniformly grey 128, and no pupil is detected in it, whatever the scene.
\<close>

theorem static_scene_no_pupil:
  assumes "cv_lib_ok cv" "is_frame h w f" "d \<le> t" "t < n"
  shows "\<exists>outs. process_stream [] (int d) (1/2) (replicate n f) = Inr (replicate n (invert_frame f), outs) \<and>
           outs ! t = map (map (\<lambda>p. BGR 128 128 128)) f \<and> detect_pupil cv (outs ! t) = Inr None"
proof -
  have F: "list_all (is_frame h w) ([] @ replicate n f)" using assms(2) by (simp add: list_all_iff)
  obtain outs where run: "process_stream (map invert_frame []) (int d) (1/2) (replicate n f) =
                           Inr (map invert_frame ([] @ replicate n f), outs)"
    and nth: "\<forall>t < length (replicate n f). outs ! t = spec_output d (1/2) ([] @ take (Suc t) (replicate n f))"
    using process_stream_spec [OF F, of d "1/2"] by blast
  have "outs ! t = map2 (map2 (add_weighted_pixel (1/2) (1/2) 0)) f (invert_frame f)"
    using nth spec_output_take [of t "replicate n f" d "1/2"] assms(3,4) by simp
  also have "\<dots> = map (map (\<lambda>p. BGR 128 128 128)) f"
    by (simp add: invert_frame_def map2_map2_map_map add_weighted_pixel_half_invert)
  finally have out: "outs ! t = map (map (\<lambda>p. BGR 128 128 128)) f" .
  have g: "cvt_gray_pixel (BGR 128 128 128) = 128" by (simp add: cvt_gray_pixel_def)
  have "detect_pupil cv (map (map (\<lambda>p. BGR 128 128 128)) f) = Inr None"
    by (rule gray_above_threshold_no_pupil [OF assms(1)]) (simp add: g)
  with run out show ?thesis by (simp add: map_replicate)
qed

subsection \<open>Witnesses\<close>

theorem moving_dot_tracked_witness:
  "\<exists>outs. process_stream [] (int 3) (1/2)
      (map (dot_frame 1 5 200) [(0,0), (1,0), (2,0), (3,0), (4,0), (0,0), (1,0), (2,0), (3,0), (4,0)]) =
        Inr (map (\<lambda>p. invert_frame (dot_frame 1 5 200 p))
               [(0,0), (1,0), (2,0), (3,0), (4,0), (0,0), (1,0), (2,0), (3,0), (4,0)], outs) \<and>
      detect_pupil cv_test (outs ! 0) = Inr (Some (0, 0)) \<and>
      detect_pupil cv_test (outs ! 3) = Inr (Some (3, 0)) \<and>
      detect_pupil cv_test (outs ! 9) = Inr (Some (4, 0))"
proof -
  let ?ps = "[(0,0), (1,0), (2,0), (3,0), (4,0), (0,0), (1,0), (2,0), (3,0), (4,0)] :: (int \<times> int) list"
  have bg: "155 \<le> unat (200 :: sample)" by simp
  have ing: "list_all (in_grid 1 5) ?ps" by (simp add: in_grid_def)
  have mv: "\<forall>t < length ?ps. 3 \<le> t \<longrightarrow> ?ps ! t \<noteq> ?ps ! (t - 3)"
    by (simp add: numeral_eq_Suc All_less_Suc)
  from moving_dot_tracked [OF cv_lib_ok_cv_test bg ing mv] obtain outs where
    run: "process_stream [] (int 3) (1/2) (map (dot_frame 1 5 200) ?ps) =
            Inr (map (\<lambda>p. invert_frame (dot_frame 1 5 200 p)) ?ps, outs)"
    and det: "\<forall>t < length ?ps. detect_pupil cv_test (outs ! t) = Inr (Some (?ps ! t))" by blast
  have "detect_pupil cv_test (outs ! 0) = Inr (Some (0, 0))" using det by simp
  moreover have "detect_pupil cv_test (outs ! 3) = Inr (Some (3, 0))" using det [rule_format, of 3] by simp
  moreover have "detect_pupil cv_test (outs ! 9) = Inr (Some (4, 0))" using det [rule_format, of 9] by simp
  ultimately show ?thesis using run by blast
qed
theorem static_scene_no_pupil_witness:
  "cv_lib_ok cv_test \<and> is_frame 1 1 [[BGR 0 0 0]] \<and> (1::nat) \<le> 1 \<and> (1::nat) < 2 \<and>
   (\<exists>outs. process_stream [] 1 (1/2) [[[BGR 0 0 0]], [[BGR 0 0 0]]] =
              Inr ([[[BGR 255 255 255]], [[BGR 255 255 255]]], outs) \<and>
            outs ! 1 = [[BGR 128 128 128]] \<and> detect_pupil cv_test (outs ! 1) = Inr None)"
proof -
  have F: "is_frame 1 1 [[BGR 0 0 0]]" by (simp add: is_frame_def)
  have i: "invert_frame [[BGR 0 0 0]] = [[BGR 255 255 255]]" by (simp add: invert_frame_def invert_sample_def)
  show ?thesis
    using static_scene_no_pupil [OF cv_lib_ok_cv_test F, of 1 1 2] cv_lib_ok_cv_test F
    by (simp add: numeral_2_eq_2 i)
qed

end
