(* ===== verification/Spec2Isabelle.thy ===== *)
theory Spec2Isabelle
  imports Driver Tracking
begin

text \<open>
  A verification development for \<open>src/main.py\<close> of the eye-tracking repository: a
  real-time "motion-trail" pipeline that blends each video frame with a delayed,
  colour-inverted copy of an earlier frame, looks for the darkest round blob (the
  pupil) in the result, optionally draws a trail of past detections, and moves the
  mouse pointer there.

  \<^bold>\<open>Parts of the program and the theories that model them.\<close>
  \<^item> \<open>Prelude\<close>: Python's semantics for the built-ins the code relies on: negative
    list indexing (\<open>py_index\<close>, raising \<open>IndexError\<close>), \<open>int()\<close> of a float
    (\<open>py_int\<close>, truncation towards zero), \<open>%\<close> (\<open>py_mod\<close>, raising
    \<open>ZeroDivisionError\<close>), \<open>max(..., key=...)\<close> (\<open>py_max_key\<close>, the first maximum
    kept, \<open>ValueError\<close> on an empty list); the exception type \<open>py_error\<close>, so every
    raise of the source is an \<open>Inl\<close> branch of the model.
  \<^item> \<open>Frame\<close> (FrameInverter, line 6): frames as rows of BGR pixels of \<open>8 word\<close>
    samples; \<open>invert_frame\<close> is \<open>255 - frame\<close> in 8-bit arithmetic.
  \<^item> \<open>Blend\<close> (Blender, line 11): \<open>cv2.addWeighted\<close> as \<open>add_weighted\<close>: per
    sample the weighted sum, rounded half to even and saturated to \<open>[0, 255]\<close>
    (\<open>saturate_cast<uchar>\<close>), raising on arrays of different shape.
  \<^item> \<open>DelayBuffer\<close> (\<open>process_frame\<close>, lines 5--14): the buffer is passed in and
    returned; beside it the abstract specification \<open>lookback\<close>/\<open>blend\<close>/\<open>spec_output\<close>
    and \<open>process_stream\<close>, the function run over a stream with fixed parameters.
  \<^item> \<open>Detect\<close> (BlobDetector, \<open>detect_pupil\<close>, lines 16--25): OpenCV's fixed-point
    BGR-to-grey conversion in 32-bit words (\<open>cvt_gray_pixel\<close>), the inverse threshold
    at 50, \<open>contourArea\<close> by the shoelace formula and \<open>max(cnts, key=...)\<close>.
    \<open>cv2.findContours\<close> and \<open>cv2.minEnclosingCircle\<close> are library routines the code
    only calls: they are the fields of the record \<open>cv_lib\<close>, constrained by the
    contracts \<open>cv_lib_ok\<close>; \<open>cv_test\<close> is an executable instance meeting them.
  \<^item> \<open>Trail\<close> (TrailAccumulator, lines 45--46, 73--83, 94--97): \<open>trail_mode\<close> and
    \<open>trail_points\<close> as the record \<open>trail_state\<close>, the found-pupil branch with its
    \<open>cv2.circle\<close> calls as draw commands, the \<open>t\<close>-key toggle, an event step
    function and the inductive reachability relation \<open>trail_reach\<close>.
  \<^item> \<open>Driver\<close> (PipelineDriver, \<open>main\<close>, lines 30--100): the settings as the record
    \<open>config\<close>; the capture as the list of frames it delivers with a read position
    (\<open>cap_read\<close>, \<open>cap_rewind\<close>); source selection (\<open>open_source\<close>, with
    \<open>str.strip\<close>) and \<open>fps or 30\<close>; one iteration \<open>loop_body\<close> (lines 63--97)
    composing \<open>process_frame\<close>, \<open>detect_pupil\<close>, the trail branch
    (\<open>on_pupil\<close>), the pointer move (\<open>pointer_effect\<close>, with \<open>%\<close>), the
    \<open>cv2.waitKey\<close> delay (\<open>wait_ms\<close>) and the key dispatch (\<open>key_code\<close>,
    \<open>handle_key\<close>); the \<open>while True\<close> loop \<open>main_loop\<close>; and \<open>main\<close>, which
    opens the window and trackbars before the loop (\<open>setup_effects\<close>, lines 49--52)
    and releases the capture and closes the window after a \<open>break\<close>
    (\<open>cleanup_effects\<close>, lines 99--100). What
    the user does in an iteration (trackbar positions, the screen size
    \<open>pyautogui.size()\<close> reports, the code \<open>cv2.waitKey\<close> returns) is an input
    record \<open>ui_input\<close>, and what the iteration does to the outside world
    (\<open>pyautogui.moveTo\<close>, \<open>cv2.imshow\<close> with its markers, \<open>cv2.waitKey\<close>) is a
    list of \<open>effect\<close>s in call order. A run ends with an \<open>outcome\<close>: ESC, the end
    of a non-looping stream, an exception, or the end of the given inputs.
  \<^item> pyautogui (lines 86--87) is modelled inside \<open>Driver\<close>: the pointer position
    is the field \<open>drv_pointer\<close> of the driver's state, and \<open>pointer_run\<close> performs an
    iteration's \<open>MoveTo\<close> effects with the library's default fail-safe, which makes
    \<open>moveTo\<close> raise \<open>FailSafeException\<close> while the pointer is at \<open>(0, 0)\<close>; the
    exception ends the iteration like any other raise. The trackbar callback
    \<open>nothing\<close> (lines 27--28) is in \<open>Driver\<close> too.
  \<^item> \<open>Tracking\<close>: the per-frame pipeline (\<open>process_frame\<close> then \<open>detect_pupil\<close>) run
    over synthetic scenes built as grid frames: a one-pixel dark dot moving on a grey
    background (\<open>dot_frame\<close>), and a scene that does not move.

  \<^bold>\<open>What is proved.\<close>
  \<^item> DelayBuffer (C1--C3, C7, C8, C33): \<open>process_frame\<close> refines the abstract
    specification when the buffer is the inverted history; over a stream of frames of
    one size, step \<open>t \<ge> d\<close> blends frame \<open>t\<close> with the inverted frame \<open>t - d\<close>,
    earlier steps return the raw frame; each call grows the buffer by exactly the
    inverted frame; frames of different shape raise \<open>cv2.error\<close>; and it raises
    \<open>IndexError\<close> exactly for a delay below \<open>-(len(buffer) + 1)\<close>.
  \<^item> Frame and Blend (C4--C6, C9): the blend boundary laws at opacity 0 and 1; at an
    opacity in \<open>[0, 1]\<close> a blended sample lies between its inputs; inversion never
    wraps and is the bitwise complement.
  \<^item> Detect (C10--C14): the fixed-point grey value cannot overflow and is the exact
    weighted sum shifted; a bright frame has no pupil; the contour chosen has the
    largest area and is the first of equals; the point lies in the frame; detection
    never raises.
  \<^item> Trail (C15--C17): by rule induction over \<open>trail_reach\<close>, trail off implies no
    stored points; runs of events refine the abstract \<open>trail_spec\<close>; the draw
    commands of a detection.
  \<^item> Driver (C18--C30, C34, C35): the loop returns on every finite input sequence
    when the clip has a frame or looping is off (C18), and never returns when looping
    is on and the clip is empty (C19); on a clip of one frame size with a positive
    screen, the only exception a run can end in is the fail-safe, and only outside
    test mode (C20); the \<open>waitKey\<close> delay is the truncated quotient (C21) and is 0,
    a blocking wait, exactly when \<open>fps \<cdot> speed > 10000\<close> (C22); key dispatch (C23);
    pointer wrap-around and its \<open>ZeroDivisionError\<close> (C24, C25); the order and count
    of one iteration's effects (C26), the iteration without a pupil (C27), test mode
    (C28), source selection with Python's \<open>str.isspace\<close> (C29), the run-level buffer
    invariant by fixed-point induction (C30); the effects of \<open>main\<close> come in the
    order setup, loop, cleanup, with the cleanup exactly after a \<open>break\<close> (C34); and
    an iteration that detects a pupil while the pointer rests at \<open>(0, 0)\<close> raises
    \<open>FailSafeException\<close> (C35), which the witness of C20 reaches from the program's
    settings in two frames of a clip of one black pixel. The run-level properties are
    proved with one fixed-point induction rule over the branches of the loop
    (\<open>main_loop_run_induct\<close>, from \<open>main_loop.raw_induct\<close>).
  \<^item> Across components (C31 and C32 in \<open>Tracking\<close>): a static scene blended at
    opacity 1/2 with its inverse is uniformly grey 128, in which no pupil is found;
    and the spec's end-to-end scenario for every path of a moving dot: the current
    dot is found on every frame, the warm-up included, whenever it has moved in the
    last \<open>delay\<close> frames (C32), with the spec's own 10-frame instance as witness.

  \<^bold>\<open>Abstractions, bounds and fuel.\<close> Python floats and OpenCV's single-precision
  arithmetic are exact rationals; the rounding of \<open>saturate_cast\<close> (half to even) and
  the truncation of \<open>int()\<close> are kept. Samples are \<open>8 word\<close>, the grey conversion
  is computed in \<open>32 word\<close> as OpenCV does. Strings are lists of Isabelle's
  8-bit \<open>char\<close>, so a path is a string of Latin-1 code points, on which
  \<open>py_isspace\<close> is exactly Python's \<open>str.isspace\<close>. The pointer starts where
  \<open>main\<close> is told it is and moves only by the program's \<open>moveTo\<close> calls. No fuel is used: the only unbounded loop
  is \<open>main_loop\<close>, a \<open>partial_function (option)\<close> whose \<open>None\<close> is a run that does
  not return; the user's inputs are a finite list, one per iteration that reads a
  frame, so C18 proves that the function returns by induction on that list, and
  C19/C20/C30/C34 are proved by fixed-point induction (\<open>main_loop_run_induct\<close>,
  derived from \<open>main_loop.raw_induct\<close>).

  \<^bold>\<open>Not modelled.\<close> The internals of \<open>cv2.findContours\<close> and
  \<open>cv2.minEnclosingCircle\<close> (contracts only), of \<open>cv2.VideoCapture\<close> (a clip is a
  list of frames), of \<open>pyautogui\<close> beyond the pointer position and the \<open>(0, 0)\<close>
  fail-safe (the other corners of newer releases, \<open>PAUSE\<close> delays, several
  monitors, the user moving the mouse during a run), and the behaviour of the GUI behind the calls the program makes
  (modelled as effects; their only influence on the program is the trackbar values
  and key codes, which are inputs); the imports and the \<open>__main__\<close> guard
  (lines 1--3, 102--103); whitespace beyond Latin-1 in the input path;
  pixel-level rendering of \<open>cv2.circle\<close> (kept as draw commands).
\<close>

end
